theory Spec2Isabelle
  imports Main
begin

section \<open>Command encoder: definitions (package run, \<open>quote\<close> and \<open>selectCommand\<close>)\<close>

text \<open>
  Go strings are byte sequences; they are modelled as \<open>string\<close> (a list of 8-bit
  characters). The two characters the quoting code writes are named once.
\<close>

definition squote :: char where
  "squote = CHR 0x27"

definition backslash :: char where
  "backslash = CHR 0x5C"

text \<open>
  \<open>strings.Index(s, "'")\<close> for a one-byte needle: the index of the first
  occurrence, or \<open>-1\<close> when there is none.
\<close>

fun strings_Index :: "string \<Rightarrow> char \<Rightarrow> int" where
  "strings_Index [] c = -1"
| "strings_Index (x # xs) c =
     (if x = c then 0
      else (let i = strings_Index xs c in if i = -1 then -1 else i + 1))"

text \<open>
  The body of \<open>quote\<close> is a \<open>for\<close> loop over the remaining input \<open>s\<close> with a
  \<open>strings.Builder\<close>; the builder's content is the first argument of the loop.
  \<^verbatim>\<open>
  for {
    switch i := strings.Index(s, "'"); i {
    case -1:
      if s != "" {
        builder.WriteByte('\''); builder.WriteString(s); builder.WriteByte('\'')
      }
      return builder.String()
    case 0:
      builder.WriteString("\\'"); s = s[1:]
    default:
      builder.WriteByte('\''); builder.WriteString(s[0:i]); builder.WriteByte('\'')
      builder.WriteString("\\'"); s = s[i+1:]
    }
  }
  \<close>
\<close>

function quote_loop :: "string \<Rightarrow> string \<Rightarrow> string" where
  "quote_loop builder s =
     (if strings_Index s squote = -1 then
        (if s \<noteq> [] then builder @ [squote] @ s @ [squote] else builder)
      else if strings_Index s squote = 0 then
        quote_loop (builder @ [backslash, squote]) (drop 1 s)
      else
        quote_loop
          (builder @ [squote] @ take (nat (strings_Index s squote)) s @ [squote]
             @ [backslash, squote])
          (drop (nat (strings_Index s squote + 1)) s))"
  by pat_completeness auto
termination
proof -
  have range: "strings_Index s c = -1 \<or>
      (0 \<le> strings_Index s c \<and> strings_Index s c < int (length s))" for s c
    by (induction s) (auto simp: Let_def)
  show ?thesis
  proof (relation "measure (\<lambda>(builder, s). length s)", goal_cases)
    case 1
    show ?case by simp
  next
    case (2 builder s)
    with range [of s squote] show ?case by auto
  next
    case (3 builder s)
    with range [of s squote] show ?case by auto
  qed
qed

declare quote_loop.simps [simp del]

definition quote :: "string \<Rightarrow> string" where
  "quote s = quote_loop [] s"

text \<open>\<open>strings.Join(elems, sep)\<close>.\<close>

fun strings_Join :: "string list \<Rightarrow> string \<Rightarrow> string" where
  "strings_Join [] sep = []"
| "strings_Join [x] sep = x"
| "strings_Join (x # y # ys) sep = x @ sep @ strings_Join (y # ys) sep"

text \<open>
  \<open>appConfig.Commands\<close> is a Go map from alias name to command. The \<open>range\<close>
  loop of \<open>selectCommand\<close> visits its entries in an order the runtime chooses; the
  entries are given here as the list of pairs in the order of that visit. The loop
  replaces \<open>base\<close> at the first entry whose name is the specified command and stops.
\<close>

fun range_Commands :: "(string \<times> string) list \<Rightarrow> string \<Rightarrow> string \<Rightarrow> string" where
  "range_Commands [] specified base = base"
| "range_Commands ((name, cmd) # rest) specified base =
     (if name = specified then cmd else range_Commands rest specified base)"

text \<open>
  Run-time panics of the modelled code: an index out of range, and the read of a
  field through a \<open>nil\<close> pointer.

  \<open>selectCommand\<close>: \<open>ourArgs[0]\<close> panics on an empty argument list (the command is
  registered with \<open>cobra.MinimumNArgs(1)\<close>, so the command line never is empty).
\<close>

datatype panic = IndexOutOfRange | NilDereference

definition selectCommand :: "(string \<times> string) list \<Rightarrow> string list \<Rightarrow> panic + string" where
  "selectCommand Commands ourArgs =
     (case ourArgs of
        [] \<Rightarrow> Inl IndexOutOfRange
      | specified # rest \<Rightarrow>
          (let base = range_Commands Commands specified (quote specified);
               cmdArgs = [base] @ map (\<lambda>arg. quote arg) rest
           in Inr (strings_Join cmdArgs '' '')))"

section \<open>Errors, data and the platform boundary\<close>

text \<open>
  Go \<open>error\<close> values. \<open>errors.New\<close> and \<open>fmt.Errorf\<close> without \<open>%w\<close> give a plain
  message; \<open>fmt.Errorf("...: %w", err)\<close> wraps \<open>err\<close> behind a prefix;
  \<open>*flaps.FlapsError\<close> carries the HTTP status of the platform's response, which
  \<open>makeEphemeralRunnerMachine\<close> reads through \<open>errors.As\<close>. A run-time panic of the
  modelled code (an index out of range) is the last constructor: it is never wrapped,
  and every caller in the model passes it on unchanged.
\<close>

datatype error =
    ErrorString string
  | Wrapped string error
  | FlapsError int string
  | RuntimePanic panic

fun error_message :: "error \<Rightarrow> string" where
  "error_message (ErrorString msg) = msg"
| "error_message (Wrapped prefix err) = prefix @ error_message err"
| "error_message (FlapsError code msg) = msg"
| "error_message (RuntimePanic p) = ''panic''"

text \<open>
  \<open>errors.As(err, &flapsErr)\<close>: the first \<open>*flaps.FlapsError\<close> in the chain of
  wrapped errors; the result is its \<open>ResponseStatusCode\<close>.
\<close>

fun errors_As_FlapsError :: "error \<Rightarrow> int option" where
  "errors_As_FlapsError (ErrorString msg) = None"
| "errors_As_FlapsError (Wrapped prefix err) = errors_As_FlapsError err"
| "errors_As_FlapsError (FlapsError code msg) = Some code"
| "errors_As_FlapsError (RuntimePanic p) = None"

text \<open>\<open>time.Duration\<close> counts nanoseconds.\<close>

definition time_Second :: int where
  "time_Second = 1000000000"

definition time_Minute :: int where
  "time_Minute = 60 * time_Second"

text \<open>
  The \<open>%v\<close> verb of \<open>fmt\<close> on an \<open>int\<close>: decimal digits, with a minus sign for a
  negative number.
\<close>

function decimal :: "nat \<Rightarrow> string" where
  "decimal n =
     (if n < 10 then [char_of (48 + n)]
      else decimal (n div 10) @ [char_of (48 + n mod 10)])"
  by pat_completeness auto
termination
  by (relation "measure (\<lambda>n. n)") auto

declare decimal.simps [simp del]

definition fmt_int :: "int \<Rightarrow> string" where
  "fmt_int i = (if i < 0 then CHR ''-'' # decimal (nat (- i)) else decimal (nat i))"

text \<open>
  The types of package \<open>api\<close>, with the fields the modelled code reads or writes.
  A pointer that the code compares with \<open>nil\<close> is an \<open>option\<close>. So is the
  configuration of a machine, \<open>m.Config\<close>: it is a pointer that \<open>Update\<close> reads
  without a test, and the read of \<open>m.Config.Schedule\<close> panics when it is \<open>nil\<close>.
  The pointers that the platform's answers always fill (the machine itself, the
  events of a log, the organization of an app) are plain values.
\<close>

record MachineGuest =
  CPUKind :: string
  CPUs :: int
  MemoryMB :: int

datatype MachineRestartPolicy = MachineRestartPolicyUnset | MachineRestartPolicyNo

record DNSConfig =
  SkipRegistration :: bool

record MachineConfig =
  Env :: "string \<rightharpoonup> string"
  Init_Cmd :: "string list"
  Init_Entrypoint :: "string list"
  Image :: string
  Restart_Policy :: MachineRestartPolicy
  AutoDestroy :: bool
  DNS :: "DNSConfig option"
  Guest :: "MachineGuest option"
  Schedule :: string

text \<open>
  \<open>MachineRequest\<close> is read only through its method \<open>GetExitCode() (int, error)\<close>,
  which is declared in package \<open>api\<close>; a request is given by what that method
  returns on it.
\<close>

datatype MachineRequest = MachineRequest (GetExitCode: "error + int")

record MachineEvent =
  Type :: string
  Request :: "MachineRequest option"

text \<open>
  \<open>IsFlyAppsReleaseCommand\<close> is a method of \<open>api.Machine\<close>; the field holds its
  result.
\<close>

record Machine =
  ID :: string
  Name :: string
  State :: string
  Region :: string
  PrivateIP :: string
  LeaseNonce :: string
  Config :: "MachineConfig option"
  Events :: "MachineEvent list"
  IsFlyAppsReleaseCommand :: bool

text \<open>
  Modelled from the spec: the constants \<open>api.MachineStateStarted\<close>,
  \<open>api.MachineStateDestroyed\<close> and \<open>api.MachineStateDestroying\<close> are declared in
  package \<open>api\<close>, which is not among the sources. The spec's data model names the
  states \<open>started\<close>, \<open>destroying\<close> and \<open>destroyed\<close>.
\<close>

definition MachineStateStarted :: string where
  "MachineStateStarted = ''started''"

definition MachineStateDestroyed :: string where
  "MachineStateDestroyed = ''destroyed''"

definition MachineStateDestroying :: string where
  "MachineStateDestroying = ''destroying''"

record LaunchMachineInput =
  input_AppID :: string
  input_ID :: string
  input_Name :: string
  input_Region :: string
  input_OrgSlug :: string
  input_Config :: "MachineConfig option"

record StopMachineInput =
  stop_ID :: string
  stop_Timeout :: int

record Organization =
  Organization_ID :: string
  Organization_Slug :: string

record AppCompact =
  App_ID :: string
  App_Name :: string
  PlatformVersion :: string
  App_Organization :: Organization

record Release =
  ImageRef :: string

text \<open>
  \<open>appconfig.Config\<close>: \<open>Commands\<close> is the alias table in the order of its visit (see
  \<open>range_Commands\<close>).
\<close>

record AppConfig =
  AppEnv :: "string \<rightharpoonup> string"
  PrimaryRegion :: string
  Commands :: "(string \<times> string) list"

text \<open>
  Everything the modelled code does to the outside is a \<open>call\<close>, recorded in the
  order it happens: the calls to the platform client and the other collaborators,
  and the lines written to the operator (\<open>io.Out\<close>, \<open>io.ErrOut\<close>,
  \<open>terminal.Warn\<close>). \<open>Call_Update input nonce\<close> is
  \<open>flapsClient.Update(ctx, input, nonce)\<close>, \<open>Call_Stop input nonce\<close> is
  \<open>flapsClient.Stop(ctx, input, nonce)\<close>, \<open>Call_ReleaseLease id nonce\<close> is
  \<open>flapsClient.ReleaseLease(ctx, id, nonce)\<close>; the waits carry the machine's ID,
  the awaited action or state, and the timeout.
\<close>

datatype call =
    Call_AcquireLeases
  | Call_ReleaseLease string string
  | Call_Update LaunchMachineInput string
  | Call_WaitForStartOrStop string string int
  | Call_MachinesChecks "Machine list"
  | Call_GetAppCompact string
  | Call_flaps_New AppCompact
  | Call_FromRemoteApp string
  | Call_ValidateForMachinesPlatform AppConfig
  | Call_GetAppCurrentReleaseMachines string
  | Call_Launch LaunchMachineInput
  | Call_Wait string string int
  | Call_Get string
  | Call_ListActive
  | Call_Stop StopMachineInput string
  | Call_prompt_Select string "string list"
  | Call_BringUpAgent AppCompact
  | Call_Connect string string
  | Call_Console string
  | Out string
  | ErrOut string
  | Warn string

text \<open>
  The collaborators are outside the modelled code. Each is a function of the state
  of the outside world \<open>'w\<close>, which returns its answer and the next state; the
  theorems hold for every such \<open>platform\<close>. Answers that are opaque handles (the
  flaps client, the SSH dialer and client) are left out, their errors are kept.
  \<open>MachinePresets\<close> is the table \<open>api.MachinePresets\<close>, and the three \<open>colorize\<close>
  functions are the colour scheme of the terminal.
\<close>

record 'w platform =
  colorize_Bold :: "string \<Rightarrow> string"
  colorize_Red :: "string \<Rightarrow> string"
  colorize_Green :: "string \<Rightarrow> string"
  MachinePresets :: "string \<rightharpoonup> MachineGuest"
  on_AcquireLeases :: "'w \<Rightarrow> (error + Machine list) \<times> 'w"
  on_ReleaseLease :: "string \<Rightarrow> string \<Rightarrow> 'w \<Rightarrow> error option \<times> 'w"
  on_Update :: "LaunchMachineInput \<Rightarrow> string \<Rightarrow> 'w \<Rightarrow> error option \<times> 'w"
  on_WaitForStartOrStop :: "string \<Rightarrow> string \<Rightarrow> int \<Rightarrow> 'w \<Rightarrow> error option \<times> 'w"
  on_MachinesChecks :: "Machine list \<Rightarrow> 'w \<Rightarrow> error option \<times> 'w"
  on_GetAppCompact :: "string \<Rightarrow> 'w \<Rightarrow> (error + AppCompact) \<times> 'w"
  on_flaps_New :: "AppCompact \<Rightarrow> 'w \<Rightarrow> error option \<times> 'w"
  on_FromRemoteApp :: "string \<Rightarrow> 'w \<Rightarrow> (error + AppConfig) \<times> 'w"
  on_ValidateForMachinesPlatform :: "AppConfig \<Rightarrow> 'w \<Rightarrow> (error option \<times> string) \<times> 'w"
  on_GetAppCurrentReleaseMachines :: "string \<Rightarrow> 'w \<Rightarrow> (error + Release option) \<times> 'w"
  on_Launch :: "LaunchMachineInput \<Rightarrow> 'w \<Rightarrow> (error + Machine) \<times> 'w"
  on_Wait :: "string \<Rightarrow> string \<Rightarrow> int \<Rightarrow> 'w \<Rightarrow> error option \<times> 'w"
  on_Get :: "string \<Rightarrow> 'w \<Rightarrow> (error + Machine) \<times> 'w"
  on_ListActive :: "'w \<Rightarrow> (error + Machine list) \<times> 'w"
  on_Stop :: "StopMachineInput \<Rightarrow> string \<Rightarrow> 'w \<Rightarrow> error option \<times> 'w"
  on_prompt_Select :: "string list \<Rightarrow> 'w \<Rightarrow> (error + int) \<times> 'w"
  on_BringUpAgent :: "AppCompact \<Rightarrow> 'w \<Rightarrow> error option \<times> 'w"
  on_Connect :: "string \<Rightarrow> string \<Rightarrow> 'w \<Rightarrow> error option \<times> 'w"
  on_Console :: "string \<Rightarrow> 'w \<Rightarrow> error option \<times> 'w"

record 'w state =
  world :: 'w
  calls :: "call list"

text \<open>
  \<open>perform c f\<close> records the call \<open>c\<close> and lets the collaborator \<open>f\<close> answer it;
  \<open>emit c\<close> records a line written to the operator.
\<close>

definition perform :: "call \<Rightarrow> ('w \<Rightarrow> 'r \<times> 'w) \<Rightarrow> 'w state \<Rightarrow> 'r \<times> 'w state" where
  "perform c f s =
     (case f (world s) of (r, w') \<Rightarrow> (r, \<lparr>world = w', calls = calls s @ [c]\<rparr>))"

definition emit :: "call \<Rightarrow> 'w state \<Rightarrow> 'w state" where
  "emit c s = s\<lparr>calls := calls s @ [c]\<rparr>"

section \<open>Update orchestrator: definitions (package machine, \<open>update.go\<close>)\<close>

text \<open>
  \<open>Update\<close> writes \<open>input.ID = m.ID\<close> through the pointer it is given, so the input
  is returned with the result. The result is either a panic or Go's \<open>error\<close>, where
  \<open>None\<close> is \<open>nil\<close>. After a push that the platform accepted, the code reads
  \<open>m.Config.Schedule\<close>; \<open>m.Config\<close> is a pointer, and the read panics when it is
  \<open>nil\<close>. \<open>WaitForStartOrStop\<close> and \<open>watch.MachinesChecks\<close> are collaborators; the
  wait is given a fresh machine value that has only the ID.
\<close>

definition Update ::
  "'w platform \<Rightarrow> Machine \<Rightarrow> LaunchMachineInput \<Rightarrow> 'w state
     \<Rightarrow> ((panic + error option) \<times> LaunchMachineInput) \<times> 'w state" where
  "Update P m input0 s0 =
     (let s1 = emit (Out (''Updating machine '' @ colorize_Bold P (ID m) @ ''\<newline>'')) s0;
          input = input0\<lparr>input_ID := ID m\<rparr>
      in case perform (Call_Update input (LeaseNonce m))
                (on_Update P input (LeaseNonce m)) s1 of
           (Some err, s2) \<Rightarrow>
             ((Inr (Some (Wrapped (''could not stop machine '' @ input_ID input @ '': '') err)),
               input), s2)
         | (None, s2) \<Rightarrow>
             (case Config m of
                None \<Rightarrow> ((Inl NilDereference, input), s2)
              | Some config \<Rightarrow>
                  (let waitForAction = (if Schedule config \<noteq> '''' then ''stop'' else ''start'')
                   in case perform
                             (Call_WaitForStartOrStop (input_ID input) waitForAction
                                (time_Minute * 5))
                             (on_WaitForStartOrStop P (input_ID input) waitForAction
                                (time_Minute * 5)) s2 of
                        (Some err, s3) \<Rightarrow> ((Inr (Some err), input), s3)
                      | (None, s3) \<Rightarrow>
                          (case perform (Call_MachinesChecks [m])
                                  (on_MachinesChecks P [m]) s3 of
                             (Some err, s4) \<Rightarrow>
                               ((Inr (Some (Wrapped
                                   ''failed to wait for health checks to pass: '' err)),
                                 input), s4)
                           | (None, s4) \<Rightarrow>
                               ((Inr None, input),
                                emit (Out (''Machine '' @ colorize_Bold P (ID m)
                                             @ '' updated successfully!\<newline>'')) s4)))))"

text \<open>
  \<open>RollingUpdate\<close> has two loops over the machines that \<open>AcquireLeases\<close> returned.
  The first defers one \<open>flapsClient.ReleaseLease(ctx, m.ID, m.LeaseNonce)\<close> per
  machine; the arguments are evaluated when the \<open>defer\<close> statement runs, and the
  deferred calls run last-in-first-out when the function returns. The stack of
  deferred calls is a list with the call deferred last at its head.
\<close>

fun defer_ReleaseLease ::
  "Machine list \<Rightarrow> (string \<times> string) list \<Rightarrow> (string \<times> string) list" where
  "defer_ReleaseLease [] deferred = deferred"
| "defer_ReleaseLease (m # machines) deferred =
     defer_ReleaseLease machines ((ID m, LeaseNonce m) # deferred)"

fun run_deferred :: "'w platform \<Rightarrow> (string \<times> string) list \<Rightarrow> 'w state \<Rightarrow> 'w state" where
  "run_deferred P [] s = s"
| "run_deferred P ((machineID, nonce) # deferred) s =
     run_deferred P deferred
       (snd (perform (Call_ReleaseLease machineID nonce)
               (on_ReleaseLease P machineID nonce) s))"

text \<open>
  The second loop, \<open>for _, m := range machines { Update(ctx, m, input) }\<close>: the
  \<open>error\<close> that \<open>Update\<close> returns is not assigned to anything, and the loop goes
  on with the next machine. A panic of \<open>Update\<close> ends the loop.
\<close>

fun range_Update ::
  "'w platform \<Rightarrow> Machine list \<Rightarrow> LaunchMachineInput \<Rightarrow> 'w state
     \<Rightarrow> (panic option \<times> LaunchMachineInput) \<times> 'w state" where
  "range_Update P [] input s = ((None, input), s)"
| "range_Update P (m # machines) input s =
     (case Update P m input s of
        ((Inl p, input'), s') \<Rightarrow> ((Some p, input'), s')
      | ((Inr err, input'), s') \<Rightarrow> range_Update P machines input' s')"

text \<open>
  \<open>RollingUpdate\<close>: the deferred releases run when the function returns and also
  when it panics; the panic goes on to the caller after them.
\<close>

definition RollingUpdate ::
  "'w platform \<Rightarrow> LaunchMachineInput \<Rightarrow> 'w state
     \<Rightarrow> ((panic + error option) \<times> LaunchMachineInput) \<times> 'w state" where
  "RollingUpdate P input s0 =
     (case perform Call_AcquireLeases (on_AcquireLeases P) s0 of
        (Inl err, s1) \<Rightarrow> ((Inr (Some err), input), s1)
      | (Inr machines, s1) \<Rightarrow>
          (let deferred = defer_ReleaseLease machines [] in
           case range_Update P machines input s1 of
             ((None, input'), s2) \<Rightarrow> ((Inr None, input'), run_deferred P deferred s2)
           | ((Some p, input'), s2) \<Rightarrow> ((Inl p, input'), run_deferred P deferred s2)))"

text \<open>Selectors of calls, for reading a trace.\<close>

fun is_AcquireLeases :: "call \<Rightarrow> bool" where
  "is_AcquireLeases Call_AcquireLeases = True"
| "is_AcquireLeases c = False"

fun is_ReleaseLease :: "call \<Rightarrow> bool" where
  "is_ReleaseLease (Call_ReleaseLease machineID nonce) = True"
| "is_ReleaseLease c = False"

fun is_Update :: "call \<Rightarrow> bool" where
  "is_Update (Call_Update input nonce) = True"
| "is_Update c = False"

fun is_WaitForStartOrStop :: "call \<Rightarrow> bool" where
  "is_WaitForStartOrStop (Call_WaitForStartOrStop machineID action timeout) = True"
| "is_WaitForStartOrStop c = False"

fun is_Launch :: "call \<Rightarrow> bool" where
  "is_Launch (Call_Launch input) = True"
| "is_Launch c = False"

fun is_Get :: "call \<Rightarrow> bool" where
  "is_Get (Call_Get machineID) = True"
| "is_Get c = False"

fun is_Stop :: "call \<Rightarrow> bool" where
  "is_Stop (Call_Stop input nonce) = True"
| "is_Stop c = False"

fun is_Warn :: "call \<Rightarrow> bool" where
  "is_Warn (Warn msg) = True"
| "is_Warn c = False"

section \<open>Ephemeral runner: definitions (package appconfig and package run)\<close>

text \<open>
  \<open>(*Config).ToEphemeralRunnerMachineConfig\<close>. \<open>lo.Assign(c.Env)\<close> copies the
  environment into a fresh map; the error result is always \<open>nil\<close>.
\<close>

definition ToEphemeralRunnerMachineConfig :: "AppConfig \<Rightarrow> error + MachineConfig" where
  "ToEphemeralRunnerMachineConfig c =
     (let mConfig0 =
            \<lparr>Env = AppEnv c,
             Init_Cmd = [''dummy'', ''to'', ''keep'', ''machine'', ''running''],
             Init_Entrypoint = [''/.fly/hallpass''],
             Image = '''',
             Restart_Policy = MachineRestartPolicyNo,
             AutoDestroy = True,
             DNS = Some \<lparr>SkipRegistration = True\<rparr>,
             Guest = None,
             Schedule = ''''\<rparr>;
          mConfig1 = mConfig0\<lparr>Env := (Env mConfig0)(''SSH_LISTEN'' \<mapsto> ''[::1]:22'')\<rparr>;
          mConfig2 =
            (if PrimaryRegion c \<noteq> ''''
             then mConfig1\<lparr>Env := (Env mConfig1)(''PRIMARY_REGION'' \<mapsto> PrimaryRegion c)\<rparr>
             else mConfig1)
      in Inr mConfig2)"

text \<open>
  The loop of \<open>checkMachineDestruction\<close> over \<open>machine.Events\<close>: the first event of
  type \<open>exit\<close> in the order of the slice, or \<open>nil\<close>.
\<close>

fun range_Events :: "MachineEvent list \<Rightarrow> MachineEvent option" where
  "range_Events [] = None"
| "range_Events (event # events) =
     (if Type event = ''exit'' then Some event else range_Events events)"

text \<open>
  \<open>checkMachineDestruction(ctx, machine, firstErr)\<close> returns \<open>(bool, error)\<close>; the
  error is never \<open>nil\<close>.
\<close>

definition checkMachineDestruction ::
  "'w platform \<Rightarrow> Machine \<Rightarrow> error \<Rightarrow> 'w state \<Rightarrow> (bool \<times> error) \<times> 'w state" where
  "checkMachineDestruction P machine0 firstErr s0 =
     (case perform (Call_Get (ID machine0)) (on_Get P (ID machine0)) s0 of
        (Inl err, s1) \<Rightarrow> ((False, Wrapped ''failed to check status of machine: '' err), s1)
      | (Inr machine, s1) \<Rightarrow>
          if State machine \<noteq> MachineStateDestroyed \<and> State machine \<noteq> MachineStateDestroying
          then ((False, firstErr), s1)
          else
            (case range_Events (Events machine) of
               None \<Rightarrow> ((True, ErrorString ''machine was destroyed unexpectedly''), s1)
             | Some exitEvent \<Rightarrow>
                 (case Request exitEvent of
                    None \<Rightarrow> ((True, ErrorString ''machine was destroyed unexpectedly''), s1)
                  | Some request \<Rightarrow>
                      (case GetExitCode request of
                         Inl err \<Rightarrow> ((True, ErrorString ''machine exited unexpectedly''), s1)
                       | Inr exitCode \<Rightarrow>
                           ((True,
                             ErrorString (''machine exited unexpectedly with code ''
                                            @ fmt_int exitCode)), s1)))))"

text \<open>
  \<open>makeEphemeralRunnerMachine\<close> returns \<open>(*api.Machine, bool, error)\<close>; with an
  error the other two results are \<open>nil\<close> and \<open>false\<close>.
\<close>

definition makeEphemeralRunnerMachine ::
  "'w platform \<Rightarrow> AppCompact \<Rightarrow> AppConfig \<Rightarrow> 'w state
     \<Rightarrow> (error + Machine \<times> bool) \<times> 'w state" where
  "makeEphemeralRunnerMachine P app appConfig s0 =
     (case perform (Call_GetAppCurrentReleaseMachines (App_Name app))
             (on_GetAppCurrentReleaseMachines P (App_Name app)) s0 of
        (Inl err, s1) \<Rightarrow> (Inl err, s1)
      | (Inr None, s1) \<Rightarrow>
          (Inl (ErrorString
             ''can't create an ephemeral runner machine since the app has not yet been released''),
           s1)
      | (Inr (Some currentRelease), s1) \<Rightarrow>
          (case ToEphemeralRunnerMachineConfig appConfig of
             Inl err \<Rightarrow>
               (Inl (Wrapped
                  ''failed to generate ephemeral runner machine configuration: '' err), s1)
           | Inr machConfig0 \<Rightarrow>
               (let machConfig = machConfig0
                      \<lparr>Image := ImageRef currentRelease,
                       Guest := MachinePresets P ''shared-cpu-1x''\<rparr>;
                    launchInput =
                      \<lparr>input_AppID = App_ID app,
                       input_ID = '''',
                       input_Name = '''',
                       input_Region = '''',
                       input_OrgSlug = Organization_ID (App_Organization app),
                       input_Config = Some machConfig\<rparr>
                in case perform (Call_Launch launchInput) (on_Launch P launchInput) s1 of
                     (Inl err, s2) \<Rightarrow>
                       (Inl (Wrapped ''failed to launch ephemeral runner machine: '' err), s2)
                   | (Inr machine, s2) \<Rightarrow>
                       (let s3 = emit (Out (''Created an ephemeral machine ''
                                              @ colorize_Bold P (ID machine)
                                              @ '' to run the command.\<newline>'')) s2;
                            waitTimeout = 15 * time_Second;
                            s4 = emit (Out (''Waiting for '' @ colorize_Bold P (ID machine)
                                              @ '' to start ...'')) s3
                        in case perform
                                  (Call_Wait (ID machine) MachineStateStarted waitTimeout)
                                  (on_Wait P (ID machine) MachineStateStarted waitTimeout) s4 of
                             (None, s5) \<Rightarrow>
                               (Inr (machine, True),
                                emit (Out ('' '' @ colorize_Green P ''done''
                                             @ ''.\<newline>'')) s5)
                           | (Some err, s5) \<Rightarrow>
                               (let s6 = emit (Out ('' '' @ colorize_Red P ''failed''
                                                      @ ''!\<newline>'')) s5
                                in case
                                     (if errors_As_FlapsError err = Some 404
                                      then checkMachineDestruction P machine err s6
                                      else ((False, err), s6)) of
                                     ((destroyed, err'), s7) \<Rightarrow>
                                       (Inl err',
                                        if \<not> destroyed
                                        then emit (Warn
                                          ''You may need to destroy the machine manually (`fly machine destroy`).'')
                                          s7
                                        else s7))))))"

text \<open>
  What the runner reads from its invocation: the flags, the arguments and the
  configuration that the context may hold. \<open>flag_machine\<close> is \<open>None\<close> when
  \<open>--machine\<close> is not specified.
\<close>

record invocation =
  appName :: string
  Args :: "string list"
  flag_select :: bool
  flag_machine :: "string option"
  flag_user :: string
  ConfigFromContext :: "AppConfig option"

definition flag_GetString_machine :: "invocation \<Rightarrow> string" where
  "flag_GetString_machine ctx = (case flag_machine ctx of None \<Rightarrow> '''' | Some v \<Rightarrow> v)"

definition getMachineByID ::
  "'w platform \<Rightarrow> invocation \<Rightarrow> 'w state \<Rightarrow> (error + Machine \<times> bool) \<times> 'w state" where
  "getMachineByID P ctx s0 =
     (let machineID = flag_GetString_machine ctx
      in case perform (Call_Get machineID) (on_Get P machineID) s0 of
           (Inl err, s1) \<Rightarrow> (Inl err, s1)
         | (Inr machine, s1) \<Rightarrow>
             if State machine \<noteq> MachineStateStarted
             then (Inl (ErrorString (''machine '' @ machineID @ '' is not started'')), s1)
             else if IsFlyAppsReleaseCommand machine
             then (Inl (ErrorString (''machine '' @ machineID
                                       @ '' is a release command machine'')), s1)
             else (Inr (machine, False), s1))"

text \<open>
  \<open>promptForMachine\<close>: \<open>prompt.Select\<close> stores the chosen index; \<open>machines[index-1]\<close>
  panics when the index is out of range.
\<close>

definition promptForMachine ::
  "'w platform \<Rightarrow> invocation \<Rightarrow> AppCompact \<Rightarrow> AppConfig \<Rightarrow> 'w state
     \<Rightarrow> (error + Machine \<times> bool) \<times> 'w state" where
  "promptForMachine P ctx app appConfig s0 =
     (if flag_machine ctx \<noteq> None
      then (Inl (ErrorString ''-m/--machine can't be used with -s/--select''), s0)
      else
        case perform Call_ListActive (on_ListActive P) s0 of
          (Inl err, s1) \<Rightarrow> (Inl err, s1)
        | (Inr machines0, s1) \<Rightarrow>
            (let machines =
                   filter (\<lambda>machine. State machine = MachineStateStarted
                                      \<and> \<not> IsFlyAppsReleaseCommand machine) machines0
             in if length machines = 0
                then (Inl (ErrorString ''no machines are available''), s1)
                else
                  (let options =
                         [''create an ephemeral shared-cpu-1x machine'']
                           @ map (\<lambda>machine. Region machine @ '': '' @ ID machine @ '' ''
                                               @ PrivateIP machine @ '' '' @ Name machine)
                               machines
                   in case perform (Call_prompt_Select ''Select a machine:'' options)
                             (on_prompt_Select P options) s1 of
                        (Inl err, s2) \<Rightarrow>
                          (Inl (Wrapped ''failed to prompt for a machine: '' err), s2)
                      | (Inr index, s2) \<Rightarrow>
                          if index = 0
                          then makeEphemeralRunnerMachine P app appConfig s2
                          else if 0 \<le> index - 1 \<and> index - 1 < int (length machines)
                          then (Inr (machines ! nat (index - 1), False), s2)
                          else (Inl (RuntimePanic IndexOutOfRange), s2))))"

definition selectMachine ::
  "'w platform \<Rightarrow> invocation \<Rightarrow> AppCompact \<Rightarrow> AppConfig \<Rightarrow> 'w state
     \<Rightarrow> (error + Machine \<times> bool) \<times> 'w state" where
  "selectMachine P ctx app appConfig s =
     (if flag_select ctx then promptForMachine P ctx app appConfig s
      else if flag_machine ctx \<noteq> None then getMachineByID P ctx s
      else makeEphemeralRunnerMachine P app appConfig s)"

text \<open>
  The function that \<open>runRun\<close> defers when the machine is ephemeral. It stops the
  machine with \<open>flapsClient.Stop(stopCtx, stopInput, "")\<close> and waits for it to be
  destroyed; its failures are warnings.
\<close>

definition deferred_stop :: "'w platform \<Rightarrow> Machine \<Rightarrow> 'w state \<Rightarrow> 'w state" where
  "deferred_stop P machine s0 =
     (let stopTimeout = 5 * time_Second;
          stopInput = \<lparr>stop_ID = ID machine, stop_Timeout = stopTimeout\<rparr>
      in case perform (Call_Stop stopInput '''') (on_Stop P stopInput '''') s0 of
           (Some err, s1) \<Rightarrow>
             emit (Warn ''You may need to destroy it manually (`fly machine destroy`).'')
               (emit (Warn (''Failed to stop ephemeral runner machine: ''
                              @ error_message err @ ''\<newline>'')) s1)
         | (None, s1) \<Rightarrow>
             (let s2 = emit (Out (''Waiting for ephemeral runner machine ''
                                    @ colorize_Bold P (ID machine)
                                    @ '' to be destroyed ...'')) s1
              in case perform (Call_Wait (ID machine) MachineStateDestroyed stopTimeout)
                        (on_Wait P (ID machine) MachineStateDestroyed stopTimeout) s2 of
                   (Some err, s3) \<Rightarrow>
                     emit (Warn ''You may need to destroy it manually (`fly machine destroy`).'')
                       (emit (Warn (''Failed to wait for ephemeral runner machine to be destroyed: ''
                                      @ error_message err @ ''\<newline>''))
                          (emit (Out ('' '' @ colorize_Red P ''failed'' @ ''!\<newline>'')) s3))
                 | (None, s3) \<Rightarrow>
                     emit (Out ('' '' @ colorize_Green P ''done'' @ ''.\<newline>'')) s3))"

text \<open>
  \<open>runRun\<close>. The deferred function runs when \<open>runRun\<close> returns, after the SSH
  session, whatever the session's result is.
\<close>

definition runRun :: "'w platform \<Rightarrow> invocation \<Rightarrow> 'w state \<Rightarrow> error option \<times> 'w state" where
  "runRun P ctx s0 =
     (case perform (Call_GetAppCompact (appName ctx)) (on_GetAppCompact P (appName ctx)) s0 of
        (Inl err, s1) \<Rightarrow> (Some (Wrapped ''failed to get app: '' err), s1)
      | (Inr app, s1) \<Rightarrow>
          if PlatformVersion app \<noteq> ''machines''
          then (Some (ErrorString ''run is only supported for the machines platform''), s1)
          else
            case perform (Call_flaps_New app) (on_flaps_New P app) s1 of
              (Some err, s2) \<Rightarrow> (Some (Wrapped ''failed to create flaps client: '' err), s2)
            | (None, s2) \<Rightarrow>
                (case (case ConfigFromContext ctx of
                         Some appConfig \<Rightarrow> (Inr appConfig, s2)
                       | None \<Rightarrow>
                           perform (Call_FromRemoteApp (appName ctx))
                             (on_FromRemoteApp P (appName ctx)) s2) of
                   (Inl err, s3) \<Rightarrow>
                     (Some (Wrapped ''failed to fetch app config from backend: '' err), s3)
                 | (Inr appConfig, s3) \<Rightarrow>
                     (case perform (Call_ValidateForMachinesPlatform appConfig)
                             (on_ValidateForMachinesPlatform P appConfig) s3 of
                        ((Some err, extraInfo), s4) \<Rightarrow>
                          (Some err, emit (ErrOut (extraInfo @ ''\<newline>'')) s4)
                      | ((None, extraInfo), s4) \<Rightarrow>
                          (case selectCommand (Commands appConfig) (Args ctx) of
                             Inl p \<Rightarrow> (Some (RuntimePanic p), s4)
                           | Inr command \<Rightarrow>
                               (case selectMachine P ctx app appConfig s4 of
                                  (Inl err, s5) \<Rightarrow> (Some err, s5)
                                | (Inr (machine, ephemeral), s5) \<Rightarrow>
                                    (case
                                       (case perform (Call_BringUpAgent app)
                                               (on_BringUpAgent P app) s5 of
                                          (Some err, s6) \<Rightarrow> (Some err, s6)
                                        | (None, s6) \<Rightarrow>
                                            (case perform
                                                    (Call_Connect (flag_user ctx)
                                                       (PrivateIP machine))
                                                    (on_Connect P (flag_user ctx)
                                                       (PrivateIP machine)) s6 of
                                               (Some err, s7) \<Rightarrow> (Some err, s7)
                                             | (None, s7) \<Rightarrow>
                                                 perform (Call_Console command)
                                                   (on_Console P command) s7)) of
                                       (result, s8) \<Rightarrow>
                                         (result,
                                          if ephemeral then deferred_stop P machine s8
                                          else s8)))))))"

section \<open>Reading a trace\<close>

text \<open>
  What one \<open>Update\<close> adds to the trace, by the answers of the platform from the
  state of the world \<open>w0\<close> on: the line that announces the update and the push are
  always there; the wait follows a push that succeeded on a machine that has a
  configuration, the health checks follow a wait that succeeded, and the line that
  announces success follows health checks that passed. (\<open>calls_Update\<close> below
  proves that this is the trace of \<open>Update\<close>.)
\<close>

definition Update_calls ::
  "'w platform \<Rightarrow> Machine \<Rightarrow> LaunchMachineInput \<Rightarrow> 'w \<Rightarrow> call list" where
  "Update_calls P m input0 w0 =
     (let input = input0\<lparr>input_ID := ID m\<rparr>;
          pushed = on_Update P input (LeaseNonce m) w0
      in [Out (''Updating machine '' @ colorize_Bold P (ID m) @ ''\<newline>''),
          Call_Update input (LeaseNonce m)]
         @ (if fst pushed \<noteq> None then []
            else case Config m of
              None \<Rightarrow> []
            | Some config \<Rightarrow>
                (let waitForAction =
                       (if Schedule config \<noteq> '''' then ''stop'' else ''start'');
                     waited = on_WaitForStartOrStop P (ID m) waitForAction (time_Minute * 5)
                                (snd pushed);
                     checked = on_MachinesChecks P [m] (snd waited)
                 in Call_WaitForStartOrStop (ID m) waitForAction (time_Minute * 5)
                      # (if fst waited \<noteq> None then []
                         else Call_MachinesChecks [m]
                           # (if fst checked \<noteq> None then []
                              else [Out (''Machine '' @ colorize_Bold P (ID m)
                                           @ '' updated successfully!\<newline>'')])))))"

text \<open>
  The lease invariant of the spec, read on a trace: \<open>held\<close> lists the leases
  (machine ID and nonce) that are held; a release takes its lease off the list; a
  mutating call, \<open>Update\<close> or \<open>Stop\<close>, is in order when its machine and nonce are a
  lease on the list at that moment.
\<close>

fun lease_held_at_mutations :: "(string \<times> string) list \<Rightarrow> call list \<Rightarrow> bool" where
  "lease_held_at_mutations held [] = True"
| "lease_held_at_mutations held (Call_Update input nonce # cs) =
     ((input_ID input, nonce) \<in> set held \<and> lease_held_at_mutations held cs)"
| "lease_held_at_mutations held (Call_Stop input nonce # cs) =
     ((stop_ID input, nonce) \<in> set held \<and> lease_held_at_mutations held cs)"
| "lease_held_at_mutations held (Call_ReleaseLease machineID nonce # cs) =
     lease_held_at_mutations (remove1 (machineID, nonce) held) cs"
| "lease_held_at_mutations held (c # cs) = lease_held_at_mutations held cs"

text \<open>The lease of a machine that \<open>AcquireLeases\<close> returned.\<close>

definition lease_of :: "Machine \<Rightarrow> string \<times> string" where
  "lease_of m = (ID m, LeaseNonce m)"

section \<open>Example platforms\<close>

text \<open>
  Concrete platforms on which the theorems are run. The state of the world is a
  counter that every answer leaves as it is. Three machines \<open>A\<close>, \<open>B\<close>, \<open>C\<close> are
  leased with the nonces \<open>nA\<close>, \<open>nB\<close>, \<open>nC\<close>; \<open>B\<close> has a schedule; the platform
  rejects the configuration push on \<open>B\<close> and accepts every other call.
\<close>

definition example_config :: "string \<Rightarrow> MachineConfig" where
  "example_config schedule =
     \<lparr>Env = Map.empty, Init_Cmd = [], Init_Entrypoint = [], Image = ''registry/app:1'',
      Restart_Policy = MachineRestartPolicyUnset, AutoDestroy = False, DNS = None,
      Guest = None, Schedule = schedule\<rparr>"

definition example_machine :: "string \<Rightarrow> string \<Rightarrow> string \<Rightarrow> string \<Rightarrow> Machine" where
  "example_machine machineID nonce st schedule =
     \<lparr>ID = machineID, Name = ''machine-'' @ machineID, State = st, Region = ''ams'',
      PrivateIP = ''fdaa::'' @ machineID, LeaseNonce = nonce,
      Config = Some (example_config schedule), Events = [],
      IsFlyAppsReleaseCommand = False\<rparr>"

definition example_machines :: "Machine list" where
  "example_machines =
     [example_machine ''A'' ''nA'' ''started'' '''',
      example_machine ''B'' ''nB'' ''started'' ''hourly'',
      example_machine ''C'' ''nC'' ''started'' '''']"

definition example_app :: AppCompact where
  "example_app =
     \<lparr>App_ID = ''app-1'', App_Name = ''app'', PlatformVersion = ''machines'',
      App_Organization = \<lparr>Organization_ID = ''org-1'', Organization_Slug = ''org''\<rparr>\<rparr>"

definition example_appConfig :: AppConfig where
  "example_appConfig =
     \<lparr>AppEnv = Map.empty, PrimaryRegion = ''ams'',
      Commands = [(''deploy'', ''./deploy.sh --prod'')]\<rparr>"

definition example_platform :: "nat platform" where
  "example_platform =
     \<lparr>colorize_Bold = (\<lambda>text. text),
      colorize_Red = (\<lambda>text. text),
      colorize_Green = (\<lambda>text. text),
      MachinePresets =
        [''shared-cpu-1x'' \<mapsto> \<lparr>CPUKind = ''shared'', CPUs = 1, MemoryMB = 256\<rparr>],
      on_AcquireLeases = (\<lambda>w. (Inr example_machines, w)),
      on_ReleaseLease = (\<lambda>machineID nonce w. (None, w)),
      on_Update = (\<lambda>input nonce w.
         (if input_ID input = ''B'' then Some (ErrorString ''invalid config'') else None, w)),
      on_WaitForStartOrStop = (\<lambda>machineID action timeout w. (None, w)),
      on_MachinesChecks = (\<lambda>machines w. (None, w)),
      on_GetAppCompact = (\<lambda>name w. (Inr example_app, w)),
      on_flaps_New = (\<lambda>app w. (None, w)),
      on_FromRemoteApp = (\<lambda>name w. (Inr example_appConfig, w)),
      on_ValidateForMachinesPlatform = (\<lambda>appConfig w. ((None, ''''), w)),
      on_GetAppCurrentReleaseMachines =
        (\<lambda>name w. (Inr (Some \<lparr>ImageRef = ''registry/app:1''\<rparr>), w)),
      on_Launch = (\<lambda>input w. (Inr (example_machine ''E'' '''' ''created'' ''''), w)),
      on_Wait = (\<lambda>machineID st timeout w. (None, w)),
      on_Get = (\<lambda>machineID w. (Inr (example_machine machineID '''' ''started'' ''''), w)),
      on_ListActive = (\<lambda>w. (Inr example_machines, w)),
      on_Stop = (\<lambda>input nonce w. (None, w)),
      on_prompt_Select = (\<lambda>options w. (Inr 0, w)),
      on_BringUpAgent = (\<lambda>app w. (None, w)),
      on_Connect = (\<lambda>user address w. (None, w)),
      on_Console = (\<lambda>command w. (None, w))\<rparr>"

definition example_input :: LaunchMachineInput where
  "example_input =
     \<lparr>input_AppID = ''app'', input_ID = '''', input_Name = '''', input_Region = '''',
      input_OrgSlug = ''org'', input_Config = Some (example_config '''')\<rparr>"

definition example_state :: "nat state" where
  "example_state = \<lparr>world = 0, calls = []\<rparr>"

text \<open>
  A platform whose first leased machine has no configuration: the value of \<open>A\<close>
  has \<open>Config = nil\<close>. The platform accepts the push on it.
\<close>

definition example_platform_without_config :: "nat platform" where
  "example_platform_without_config =
     example_platform
       \<lparr>on_AcquireLeases := (\<lambda>w.
          (Inr [(example_machine ''A'' ''nA'' ''started'' '''')\<lparr>Config := None\<rparr>,
                example_machine ''C'' ''nC'' ''started'' ''''], w))\<rparr>"

text \<open>
  An invocation \<open>run deploy "extra arg"\<close> without \<open>--select\<close> and without
  \<open>--machine\<close>: the runner creates an ephemeral machine.
\<close>

definition example_ctx :: invocation where
  "example_ctx =
     \<lparr>appName = ''app'', Args = [''deploy'', ''extra arg''], flag_select = False,
      flag_machine = None, flag_user = ''root'', ConfigFromContext = Some example_appConfig\<rparr>"

text \<open>Variants of the example platform, one per failure that the runner handles.\<close>

definition example_platform_unreleased :: "nat platform" where
  "example_platform_unreleased =
     example_platform\<lparr>on_GetAppCurrentReleaseMachines := (\<lambda>name w. (Inr None, w))\<rparr>"

definition example_platform_launch_fails :: "nat platform" where
  "example_platform_launch_fails =
     example_platform\<lparr>on_Launch := (\<lambda>input w. (Inl (ErrorString ''no capacity''), w))\<rparr>"

definition example_platform_wait_timeout :: "nat platform" where
  "example_platform_wait_timeout =
     example_platform
       \<lparr>on_Wait := (\<lambda>machineID st timeout w. (Some (ErrorString ''timeout''), w))\<rparr>"

text \<open>
  The wait fails with the platform's answer 404, and the machine is then fetched in
  the state \<open>destroyed\<close> with the given event log.
\<close>

definition example_platform_destroyed :: "MachineEvent list \<Rightarrow> nat platform" where
  "example_platform_destroyed events =
     example_platform
       \<lparr>on_Wait := (\<lambda>machineID st timeout w. (Some (FlapsError 404 ''machine not found''), w)),
        on_Get := (\<lambda>machineID w.
          (Inr ((example_machine machineID '''' ''destroyed'' '''')\<lparr>Events := events\<rparr>), w))\<rparr>"

section \<open>Command encoder: properties\<close>

lemma strings_Index_range:
  "strings_Index s c = -1 \<or> (0 \<le> strings_Index s c \<and> strings_Index s c < int (length s))"
  by (induction s) (auto simp: Let_def)

lemma strings_Index_absent:
  "(strings_Index s c = -1) = (c \<notin> set s)"
proof (induction s)
  case Nil
  show ?case by simp
next
  case (Cons x xs)
  have "strings_Index xs c \<noteq> -2"
    using strings_Index_range [of xs c] by auto
  with Cons show ?case by (auto simp: Let_def)
qed

lemma strings_Index_first:
  "c \<notin> set a \<Longrightarrow> strings_Index (a @ c # rest) c = int (length a)"
  by (induction a) (auto simp: Let_def)

lemma quote_loop_no_quote:
  "squote \<notin> set s \<Longrightarrow>
     quote_loop builder s = (if s \<noteq> [] then builder @ [squote] @ s @ [squote] else builder)"
  by (subst quote_loop.simps) (simp add: strings_Index_absent)

text \<open>
  One round of the loop: the input up to its first single quote is \<open>a\<close>. A non-empty
  \<open>a\<close> is written between single quotes, an empty one is not written at all; then the
  escaped quote is written and the loop goes on with the rest.
\<close>

lemma quote_loop_step:
  assumes "squote \<notin> set a"
  shows "quote_loop builder (a @ squote # rest) =
           quote_loop (builder @ (if a = [] then [] else [squote] @ a @ [squote])
                         @ [backslash, squote]) rest"
proof (cases "a = []")
  case True
  then show ?thesis
    by (subst quote_loop.simps) simp
next
  case False
  have idx: "strings_Index (a @ squote # rest) squote = int (length a)"
    using assms by (rule strings_Index_first)
  have suc: "nat (int (length a) + 1) = Suc (length a)" by simp
  show ?thesis
    using False
    by (subst quote_loop.simps) (simp add: idx suc del: of_nat_Suc)
qed

lemma quote_loop_builder:
  "quote_loop builder s = builder @ quote_loop [] s"
proof (induction s arbitrary: builder rule: length_induct)
  case (1 s)
  show ?case
  proof (cases "squote \<in> set s")
    case False
    then show ?thesis by (simp add: quote_loop_no_quote)
  next
    case True
    then obtain a rest where s: "s = a @ squote # rest" and a: "squote \<notin> set a"
      by (meson split_list_first)
    define w where "w = (if a = [] then [] else [squote] @ a @ [squote]) @ [backslash, squote]"
    have len: "length rest < length s" using s by simp
    have IH: "quote_loop b rest = b @ quote_loop [] rest" for b
      using 1 len by blast
    have "quote_loop builder s = quote_loop (builder @ w) rest"
      using quote_loop_step [OF a, of builder rest] s by (simp add: w_def)
    also have "\<dots> = builder @ (w @ quote_loop [] rest)"
      using IH [of "builder @ w"] by simp
    also have "w @ quote_loop [] rest = quote_loop w rest"
      using IH [of w] by simp
    also have "quote_loop w rest = quote_loop [] s"
      using quote_loop_step [OF a, of "[]" rest] s by (simp add: w_def)
    finally show ?thesis .
  qed
qed

lemma quote_no_quote:
  "squote \<notin> set s \<Longrightarrow> quote s = (if s \<noteq> [] then [squote] @ s @ [squote] else [])"
  by (simp add: quote_def quote_loop_no_quote)

lemma quote_at_quote:
  assumes "squote \<notin> set a"
  shows "quote (a @ squote # rest) =
           (if a = [] then [] else [squote] @ a @ [squote]) @ [backslash, squote] @ quote rest"
proof -
  have "quote (a @ squote # rest) =
          quote_loop ((if a = [] then [] else [squote] @ a @ [squote]) @ [backslash, squote]) rest"
    unfolding quote_def using quote_loop_step [OF assms, of "[]" rest] by simp
  then show ?thesis
    unfolding quote_def by (subst (asm) quote_loop_builder) simp
qed

text \<open>The five assertions of \<open>TestQuoting\<close>.\<close>

lemma TestQuoting_bash: "quote ''bash'' = [squote] @ ''bash'' @ [squote]"
  by code_simp

lemma TestQuoting_bash_x: "quote ''bash -x'' = [squote] @ ''bash -x'' @ [squote]"
  by code_simp

lemma TestQuoting_quoted_bash:
  "quote ([squote] @ ''bash'' @ [squote]) =
     [backslash, squote] @ [squote] @ ''bash'' @ [squote] @ [backslash, squote]"
  by code_simp

lemma TestQuoting_double_quotes:
  "quote ''\"bash\"'' = [squote] @ ''\"bash\"'' @ [squote]"
  by code_simp

lemma TestQuoting_multiple:
  "quote ([squote] @ ''multiple'' @ [squote] @ '' '' @ [squote] @ ''single quotes'' @ [squote]) =
     [backslash, squote] @ [squote] @ ''multiple'' @ [squote] @ [backslash, squote]
       @ [squote] @ '' '' @ [squote] @ [backslash, squote]
       @ [squote] @ ''single quotes'' @ [squote] @ [backslash, squote]"
  by code_simp

lemma squote_neq_backslash: "squote \<noteq> backslash"
  by (simp add: squote_def backslash_def)

text \<open>
  Over the whole input: the output has one backslash more than the input for every
  single quote of the input, and the characters other than quotes and backslashes
  are those of the input, in the same order.
\<close>

lemma count_backslash_quote:
  "count_list (quote s) backslash = count_list s squote + count_list s backslash"
proof (induction s rule: length_induct)
  case (1 s)
  show ?case
  proof (cases "squote \<in> set s")
    case False
    then show ?thesis
      using squote_neq_backslash by (simp add: quote_no_quote)
  next
    case True
    then obtain a rest where s: "s = a @ squote # rest" and a: "squote \<notin> set a"
      by (meson split_list_first)
    have "length rest < length s" using s by simp
    then have IH: "count_list (quote rest) backslash =
        count_list rest squote + count_list rest backslash"
      using 1 by blast
    show ?thesis
      using a IH squote_neq_backslash
      by (simp add: s quote_at_quote)
  qed
qed

lemma other_characters_quote:
  "filter (\<lambda>c. c \<noteq> squote \<and> c \<noteq> backslash) (quote s) =
     filter (\<lambda>c. c \<noteq> squote \<and> c \<noteq> backslash) s"
proof (induction s rule: length_induct)
  case (1 s)
  show ?case
  proof (cases "squote \<in> set s")
    case False
    then show ?thesis
      by (simp add: quote_no_quote)
  next
    case True
    then obtain a rest where s: "s = a @ squote # rest" and a: "squote \<notin> set a"
      by (meson split_list_first)
    have "length rest < length s" using s by simp
    then have IH: "filter (\<lambda>c. c \<noteq> squote \<and> c \<noteq> backslash) (quote rest) =
        filter (\<lambda>c. c \<noteq> squote \<and> c \<noteq> backslash) rest"
      using 1 by blast
    show ?thesis
      using a IH by (simp add: s quote_at_quote)
  qed
qed

text \<open>
  Claim C3. \<open>quote\<close> scans its input from left to right. At every single quote of
  the input it closes the quoted run read so far (a non-empty run \<open>a\<close> becomes
  \<open>'a'\<close>, an empty run writes nothing), writes the escaped quote \<open>\'\<close>, and goes on
  with the rest of the input, where the next run is opened again; the run after the
  last single quote is written between single quotes as well when it is not empty,
  and nothing is written for it when it is empty. These two equations fix \<open>quote\<close>
  on every input. So the output has one escaping backslash for every single quote of
  the input, and the other characters of the input are kept in their order. In
  particular \<open>quote("'bash'")\<close> is \<open>\''bash'\'\<close>, and in
  \<open>quote("'multiple' 'single quotes'")\<close> each of the four quotes is escaped while
  the words and the blank between them stay inside their own quoted runs.
\<close>

theorem quote_escapes_each_single_quote:
  "(squote \<notin> set a \<longrightarrow>
      quote (a @ squote # rest) =
        (if a = [] then [] else [squote] @ a @ [squote]) @ [backslash, squote] @ quote rest)
   \<and> (squote \<notin> set s \<longrightarrow>
        quote s = (if s \<noteq> [] then [squote] @ s @ [squote] else []))
   \<and> count_list (quote s) backslash = count_list s squote + count_list s backslash
   \<and> filter (\<lambda>c. c \<noteq> squote \<and> c \<noteq> backslash) (quote s) =
       filter (\<lambda>c. c \<noteq> squote \<and> c \<noteq> backslash) s
   \<and> quote ([squote] @ ''bash'' @ [squote]) =
        [backslash, squote] @ [squote] @ ''bash'' @ [squote] @ [backslash, squote]
   \<and> quote ([squote] @ ''multiple'' @ [squote] @ '' '' @ [squote] @ ''single quotes''
              @ [squote]) =
        [backslash, squote] @ [squote] @ ''multiple'' @ [squote] @ [backslash, squote]
          @ [squote] @ '' '' @ [squote] @ [backslash, squote]
          @ [squote] @ ''single quotes'' @ [squote] @ [backslash, squote]"
  using quote_at_quote [of a rest] quote_no_quote [of s]
    count_backslash_quote [of s] other_characters_quote [of s]
    TestQuoting_quoted_bash TestQuoting_multiple
  by blast

text \<open>
  The scan applied to \<open>it's\<close>: the run \<open>it\<close> has no quote and is followed by one, so
  the output starts with \<open>'it'\'\<close>; the run \<open>s\<close> after the last quote is written as
  \<open>'s'\<close>. Both steps are instances of the theorem.
\<close>

theorem quote_escapes_each_single_quote_witness:
  "squote \<notin> set ''it'' \<and> squote \<notin> set ''s''
   \<and> quote (''it'' @ squote # ''s'') =
       [squote] @ ''it'' @ [squote] @ [backslash, squote] @ [squote] @ ''s'' @ [squote]"
  using quote_escapes_each_single_quote [where a = "''it''" and rest = "''s''" and s = "''s''"]
  by (simp add: squote_def)

text \<open>
  Claim C4, as the code has it. For every non-empty string without a single quote,
  \<open>quote\<close> returns the string between exactly one pair of single quotes: one quote,
  the unchanged input, one quote.
\<close>

theorem quote_wraps_plain_nonempty:
  "squote \<notin> set s \<Longrightarrow> s \<noteq> [] \<Longrightarrow> quote s = [squote] @ s @ [squote]"
  by (simp add: quote_no_quote)

theorem quote_wraps_plain_nonempty_witness:
  "squote \<notin> set ''bash -x'' \<and> ''bash -x'' \<noteq> []
   \<and> quote ''bash -x'' = [squote] @ ''bash -x'' @ [squote]"
  using quote_wraps_plain_nonempty [of "''bash -x''"]
  by (simp add: squote_def)

text \<open>
  The empty string has no single quote, and \<open>quote\<close> returns it as it is: the guard
  \<open>if s != ""\<close> writes no quotes for it. So the claim as stated, which includes the
  empty string, does not hold there.
\<close>

theorem quote_empty_counterexample:
  "squote \<notin> set [] \<and> quote [] = [] \<and> quote [] \<noteq> [squote] @ [] @ [squote]"
  by (simp add: quote_def quote_loop.simps)

lemma range_Commands_map_of:
  "range_Commands aliases specified base =
     (case map_of aliases specified of Some cmd \<Rightarrow> cmd | None \<Rightarrow> base)"
  by (induction aliases specified base rule: range_Commands.induct) auto

text \<open>
  A Go map has one entry per key, and the order of the visit is not fixed. The result
  of \<open>selectCommand\<close> is the same for every order of the same entries.
\<close>

lemma selectCommand_order_independent:
  assumes "distinct (map fst xs)" and "distinct (map fst ys)" and "set xs = set ys"
  shows "selectCommand xs ourArgs = selectCommand ys ourArgs"
proof -
  have "map_of xs = map_of ys"
    using assms by (simp add: map_of_inject_set)
  then show ?thesis
    by (simp add: selectCommand_def range_Commands_map_of split: list.splits)
qed

lemma selectCommand_deploy:
  "selectCommand [(''deploy'', ''./deploy.sh --prod'')] [''deploy'', ''extra arg''] =
     Inr (''./deploy.sh --prod '' @ [squote] @ ''extra arg'' @ [squote])"
  by code_simp

text \<open>
  Claim C5. For every alias table and every non-empty argument list
  \<open>specified # rest\<close>, the encoded command is the table's value for \<open>specified\<close>,
  taken as it is, when the table has that name, and \<open>quote specified\<close> otherwise;
  then every remaining argument quoted on its own; all joined by single blanks. With
  the table \<open>{"deploy": "./deploy.sh --prod"}\<close> the arguments
  \<open>["deploy", "extra arg"]\<close> encode to \<open>./deploy.sh --prod 'extra arg'\<close>.
\<close>

theorem selectCommand_alias_or_quoted:
  "selectCommand aliases (specified # rest) =
     Inr (strings_Join
            ((case map_of aliases specified of
                Some cmd \<Rightarrow> cmd
              | None \<Rightarrow> quote specified) # map quote rest) '' '')
   \<and> selectCommand [(''deploy'', ''./deploy.sh --prod'')] [''deploy'', ''extra arg''] =
       Inr (''./deploy.sh --prod '' @ [squote] @ ''extra arg'' @ [squote])"
  using selectCommand_deploy
  by (simp add: selectCommand_def range_Commands_map_of)

section \<open>Update orchestrator: properties\<close>

lemma perform_eq:
  "perform c f s = (fst (f (world s)), \<lparr>world = snd (f (world s)), calls = calls s @ [c]\<rparr>)"
  by (simp add: perform_def split: prod.splits)

lemma calls_emit [simp]: "calls (emit c s) = calls s @ [c]"
  by (simp add: emit_def)

lemma world_emit [simp]: "world (emit c s) = world s"
  by (simp add: emit_def)

lemma calls_Update:
  "calls (snd (Update P m input s)) = calls s @ Update_calls P m input (world s)"
  by (simp add: Update_def Update_calls_def perform_eq Let_def
           split: prod.splits option.splits)

lemma input_Update:
  "snd (fst (Update P m input s)) = input\<lparr>input_ID := ID m\<rparr>"
  by (simp add: Update_def perform_eq Let_def split: prod.splits option.splits)

text \<open>
  \<open>Update\<close> panics only on a machine without a configuration, and then only after
  a push that the platform accepted.
\<close>

lemma Update_panics:
  "(fst (fst (Update P m input s)) = Inl p) =
     (p = NilDereference \<and> Config m = None
      \<and> fst (on_Update P (input\<lparr>input_ID := ID m\<rparr>) (LeaseNonce m) (world s)) = None)"
  by (auto simp: Update_def perform_eq Let_def split: prod.splits option.splits)

lemma filter_Update_calls:
  "filter is_Update (Update_calls P m input w) =
     [Call_Update (input\<lparr>input_ID := ID m\<rparr>) (LeaseNonce m)]"
  by (simp add: Update_calls_def Let_def split: option.splits)

lemma filter_ReleaseLease_Update_calls:
  "filter is_ReleaseLease (Update_calls P m input w) = []"
  by (simp add: Update_calls_def Let_def split: option.splits)

text \<open>
  Claim C9. In every single-machine update of a machine that has a configuration
  and whose configuration push succeeds, the call that follows the push is one wait
  on the same machine, for \<open>stop\<close> when the machine's configuration has a non-empty
  schedule and for \<open>start\<close> otherwise, with a timeout of five minutes (300 seconds,
  counted in nanoseconds); the update issues no other wait.
\<close>

theorem Update_waits_for_stop_or_start:
  assumes "fst (on_Update P (input\<lparr>input_ID := ID m\<rparr>) (LeaseNonce m) (world s)) = None"
    and "Config m = Some config"
  shows "\<exists>rest.
           calls (snd (Update P m input s)) =
             calls s
               @ [Out (''Updating machine '' @ colorize_Bold P (ID m) @ ''\<newline>''),
                  Call_Update (input\<lparr>input_ID := ID m\<rparr>) (LeaseNonce m),
                  Call_WaitForStartOrStop (ID m)
                    (if Schedule config \<noteq> '''' then ''stop'' else ''start'')
                    (time_Minute * 5)]
               @ rest
           \<and> filter is_WaitForStartOrStop rest = []
           \<and> time_Minute * 5 = 300 * 1000000000"
  using assms
  by (simp add: calls_Update Update_calls_def Let_def time_Minute_def time_Second_def)

text \<open>
  Two updates on the example platform, which accepts both pushes: the machine \<open>A\<close>
  has no schedule, and its only wait is for \<open>start\<close>; the machine \<open>D\<close> has the
  schedule \<open>hourly\<close>, and its only wait is for \<open>stop\<close>. Both waits are five minutes
  long.
\<close>

theorem Update_waits_for_stop_or_start_witness:
  "fst (on_Update example_platform (example_input\<lparr>input_ID := ''A''\<rparr>) ''nA''
          (world example_state)) = None
   \<and> Config (example_machine ''A'' ''nA'' ''started'' '''') = Some (example_config '''')
   \<and> filter is_WaitForStartOrStop
       (calls (snd (Update example_platform (example_machine ''A'' ''nA'' ''started'' '''')
                      example_input example_state))) =
       [Call_WaitForStartOrStop ''A'' ''start'' 300000000000]
   \<and> fst (on_Update example_platform (example_input\<lparr>input_ID := ''D''\<rparr>) ''nD''
            (world example_state)) = None
   \<and> Config (example_machine ''D'' ''nD'' ''started'' ''hourly'') =
       Some (example_config ''hourly'')
   \<and> filter is_WaitForStartOrStop
       (calls (snd (Update example_platform (example_machine ''D'' ''nD'' ''started'' ''hourly'')
                      example_input example_state))) =
       [Call_WaitForStartOrStop ''D'' ''stop'' 300000000000]"
  using Update_waits_for_stop_or_start
          [where P = example_platform and input = example_input
             and m = "example_machine ''A'' ''nA'' ''started'' ''''" and s = example_state
             and config = "example_config ''''"]
        Update_waits_for_stop_or_start
          [where P = example_platform and input = example_input
             and m = "example_machine ''D'' ''nD'' ''started'' ''hourly''" and s = example_state
             and config = "example_config ''hourly''"]
  by (auto simp: example_platform_def example_machine_def example_config_def
        example_state_def time_Minute_def time_Second_def)

text \<open>
  On a machine without a configuration the read of \<open>m.Config.Schedule\<close> panics
  after the accepted push: there is no wait.
\<close>

lemma Update_without_config:
  assumes "fst (on_Update P (input\<lparr>input_ID := ID m\<rparr>) (LeaseNonce m) (world s)) = None"
    and "Config m = None"
  shows "fst (fst (Update P m input s)) = Inl NilDereference"
    and "calls (snd (Update P m input s)) =
           calls s
             @ [Out (''Updating machine '' @ colorize_Bold P (ID m) @ ''\<newline>''),
                Call_Update (input\<lparr>input_ID := ID m\<rparr>) (LeaseNonce m)]"
  using assms
  by (simp_all add: Update_panics calls_Update Update_calls_def Let_def)

lemma defer_ReleaseLease_eq:
  "defer_ReleaseLease machines deferred = rev (map lease_of machines) @ deferred"
  by (induction machines arbitrary: deferred) (simp_all add: lease_of_def)

lemma calls_run_deferred:
  "calls (run_deferred P deferred s) =
     calls s @ map (\<lambda>(machineID, nonce). Call_ReleaseLease machineID nonce) deferred"
  by (induction deferred arbitrary: s) (auto simp: perform_eq)

text \<open>
  The loop over the machines: the pushes are those of the first \<open>n\<close> machines, in
  the order of the list, whatever they returned; the loop stops before the end of
  the list only behind a machine that has no configuration, and then it has
  panicked. The loop releases nothing.
\<close>

lemma calls_range_Update:
  "\<exists>new n. calls (snd (range_Update P machines input s)) = calls s @ new
     \<and> n \<le> length machines
     \<and> filter is_Update new =
         map (\<lambda>m. Call_Update (input\<lparr>input_ID := ID m\<rparr>) (LeaseNonce m)) (take n machines)
     \<and> (if fst (fst (range_Update P machines input s)) = None then n = length machines
         else 0 < n \<and> Config (machines ! (n - 1)) = None)
     \<and> filter is_ReleaseLease new = []
     \<and> (\<forall>held rest. set (map lease_of machines) \<subseteq> set held \<longrightarrow>
          lease_held_at_mutations held (new @ rest) = lease_held_at_mutations held rest)"
proof (induction machines arbitrary: input s)
  case Nil
  show ?case by simp
next
  case (Cons m machines)
  obtain r input' s' where upd: "Update P m input s = ((r, input'), s')"
    by (metis surj_pair)
  have input': "input' = input\<lparr>input_ID := ID m\<rparr>"
    using input_Update [of P m input s] upd by simp
  have s': "calls s' = calls s @ Update_calls P m input (world s)"
    using calls_Update [of P m input s] upd by simp
  have one: "lease_held_at_mutations held (Update_calls P m input (world s) @ rest) =
      lease_held_at_mutations held rest" if "lease_of m \<in> set held" for held rest
    using that by (simp add: Update_calls_def Let_def lease_of_def split: option.splits)
  show ?case
  proof (cases r)
    case (Inl p)
    have "Config m = None"
      using Update_panics [of P m input s p] upd Inl by simp
    moreover have "range_Update P (m # machines) input s = ((Some p, input'), s')"
      using upd Inl by simp
    ultimately show ?thesis
      using s' one
      by (intro exI [of _ "Update_calls P m input (world s)"] exI [of _ 1])
         (simp add: filter_Update_calls filter_ReleaseLease_Update_calls)
  next
    case (Inr err)
    have step: "range_Update P (m # machines) input s = range_Update P machines input' s'"
      using upd Inr by simp
    from Cons.IH [of input' s'] obtain new n where
      new: "calls (snd (range_Update P machines input' s')) = calls s' @ new"
      and n: "n \<le> length machines"
      and upds: "filter is_Update new =
           map (\<lambda>m. Call_Update (input'\<lparr>input_ID := ID m\<rparr>) (LeaseNonce m)) (take n machines)"
      and stop: "if fst (fst (range_Update P machines input' s')) = None
           then n = length machines else 0 < n \<and> Config (machines ! (n - 1)) = None"
      and rels: "filter is_ReleaseLease new = []"
      and held: "\<And>held rest. set (map lease_of machines) \<subseteq> set held \<Longrightarrow>
            lease_held_at_mutations held (new @ rest) = lease_held_at_mutations held rest"
      by blast
    show ?thesis
    proof (intro exI [of _ "Update_calls P m input (world s) @ new"] exI [of _ "Suc n"]
        conjI allI impI)
      show "calls (snd (range_Update P (m # machines) input s)) =
          calls s @ (Update_calls P m input (world s) @ new)"
        using step new s' by simp
      show "Suc n \<le> length (m # machines)"
        using n by simp
      show "filter is_Update (Update_calls P m input (world s) @ new) =
          map (\<lambda>m. Call_Update (input\<lparr>input_ID := ID m\<rparr>) (LeaseNonce m))
            (take (Suc n) (m # machines))"
        using upds input' by (simp add: filter_Update_calls)
      show "if fst (fst (range_Update P (m # machines) input s)) = None
          then Suc n = length (m # machines)
          else 0 < Suc n \<and> Config ((m # machines) ! (Suc n - 1)) = None"
        using stop step by (cases n) (auto split: if_splits)
      show "filter is_ReleaseLease (Update_calls P m input (world s) @ new) = []"
        using rels by (simp add: filter_ReleaseLease_Update_calls)
    next
      fix held rest
      assume "set (map lease_of (m # machines)) \<subseteq> set held"
      then show "lease_held_at_mutations held ((Update_calls P m input (world s) @ new) @ rest) =
          lease_held_at_mutations held rest"
        using one [of held "new @ rest"] held [of held rest] by simp
    qed
  qed
qed

lemma RollingUpdate_acquired:
  assumes "fst (on_AcquireLeases P (world s)) = Inr machines"
  shows "RollingUpdate P input s =
           (((case fst (fst (range_Update P machines input
                               \<lparr>world = snd (on_AcquireLeases P (world s)),
                                calls = calls s @ [Call_AcquireLeases]\<rparr>)) of
                None \<Rightarrow> Inr None
              | Some p \<Rightarrow> Inl p),
             snd (fst (range_Update P machines input
                         \<lparr>world = snd (on_AcquireLeases P (world s)),
                          calls = calls s @ [Call_AcquireLeases]\<rparr>))),
            run_deferred P (rev (map lease_of machines))
              (snd (range_Update P machines input
                      \<lparr>world = snd (on_AcquireLeases P (world s)),
                       calls = calls s @ [Call_AcquireLeases]\<rparr>)))"
proof -
  obtain stopped input' s2 where
    "range_Update P machines input
       \<lparr>world = snd (on_AcquireLeases P (world s)),
        calls = calls s @ [Call_AcquireLeases]\<rparr> = ((stopped, input'), s2)"
    by (metis surj_pair)
  with assms show ?thesis
    by (cases stopped)
       (simp_all add: RollingUpdate_def perform_eq defer_ReleaseLease_eq Let_def
          split: prod.splits)
qed

text \<open>
  The whole trace of a rolling update whose leases were acquired: the acquisition,
  then the updates, which release nothing and push once per machine up to the end
  of the list or to a panic, then one release per machine, last acquired first. The
  result is \<open>nil\<close> unless an update has panicked.
\<close>

lemma calls_RollingUpdate:
  assumes "fst (on_AcquireLeases P (world s)) = Inr machines"
  shows "\<exists>new n. calls (snd (RollingUpdate P input s)) =
           calls s @ [Call_AcquireLeases] @ new
             @ map (\<lambda>m. Call_ReleaseLease (ID m) (LeaseNonce m)) (rev machines)
     \<and> n \<le> length machines
     \<and> filter is_Update new =
         map (\<lambda>m. Call_Update (input\<lparr>input_ID := ID m\<rparr>) (LeaseNonce m)) (take n machines)
     \<and> (if fst (fst (RollingUpdate P input s)) = Inr None then n = length machines
         else fst (fst (RollingUpdate P input s)) = Inl NilDereference
              \<and> 0 < n \<and> Config (machines ! (n - 1)) = None)
     \<and> filter is_ReleaseLease new = []
     \<and> (\<forall>held rest. set (map lease_of machines) \<subseteq> set held \<longrightarrow>
          lease_held_at_mutations held (new @ rest) = lease_held_at_mutations held rest)"
proof -
  define s1 where "s1 = \<lparr>world = snd (on_AcquireLeases P (world s)),
                         calls = calls s @ [Call_AcquireLeases]\<rparr>"
  from calls_range_Update [of P machines input s1] obtain new n where
    new: "calls (snd (range_Update P machines input s1)) = calls s1 @ new"
    and n: "n \<le> length machines"
    and upds: "filter is_Update new =
         map (\<lambda>m. Call_Update (input\<lparr>input_ID := ID m\<rparr>) (LeaseNonce m)) (take n machines)"
    and stop: "if fst (fst (range_Update P machines input s1)) = None then n = length machines
         else 0 < n \<and> Config (machines ! (n - 1)) = None"
    and rest: "filter is_ReleaseLease new = []"
      "\<forall>held rest. set (map lease_of machines) \<subseteq> set held \<longrightarrow>
          lease_held_at_mutations held (new @ rest) = lease_held_at_mutations held rest"
    by blast
  have shape: "RollingUpdate P input s =
      (((case fst (fst (range_Update P machines input s1)) of
           None \<Rightarrow> Inr None | Some p \<Rightarrow> Inl p),
        snd (fst (range_Update P machines input s1))),
       run_deferred P (rev (map lease_of machines)) (snd (range_Update P machines input s1)))"
    unfolding s1_def by (rule RollingUpdate_acquired [OF assms])
  have "map (\<lambda>(machineID, nonce). Call_ReleaseLease machineID nonce)
          (rev (map lease_of machines)) =
        map (\<lambda>m. Call_ReleaseLease (ID m) (LeaseNonce m)) (rev machines)"
    by (simp add: rev_map lease_of_def)
  then have tr: "calls (snd (RollingUpdate P input s)) =
           calls s @ [Call_AcquireLeases] @ new
             @ map (\<lambda>m. Call_ReleaseLease (ID m) (LeaseNonce m)) (rev machines)"
    using new by (simp add: shape calls_run_deferred s1_def)
  have panics: "p = NilDereference"
    if "fst (fst (range_Update P machines input s1)) = Some p" for p
    using that
  proof (induction machines arbitrary: input s1)
    case Nil
    then show ?case by simp
  next
    case (Cons m machines)
    obtain r input' s' where upd: "Update P m input s1 = ((r, input'), s')"
      by (metis surj_pair)
    show ?case
    proof (cases r)
      case (Inl q)
      then have "q = NilDereference"
        using Update_panics [of P m input s1 q] upd by simp
      with Cons.prems upd Inl show ?thesis by simp
    next
      case (Inr err)
      with Cons.prems upd have "fst (fst (range_Update P machines input' s')) = Some p"
        by simp
      then show ?thesis by (rule Cons.IH)
    qed
  qed
  have res: "if fst (fst (RollingUpdate P input s)) = Inr None then n = length machines
         else fst (fst (RollingUpdate P input s)) = Inl NilDereference
              \<and> 0 < n \<and> Config (machines ! (n - 1)) = None"
    using stop panics
    by (cases "fst (fst (range_Update P machines input s1))") (auto simp: shape)
  from tr n upds res rest show ?thesis by blast
qed

lemma filter_is_Update_releases:
  "filter is_Update (map (\<lambda>m. Call_ReleaseLease (ID m) (LeaseNonce m)) machines) = []"
  by (induction machines) simp_all

lemma count_list_releases:
  "count_list (map (\<lambda>m. Call_ReleaseLease (ID m) (LeaseNonce m)) machines)
     (Call_ReleaseLease machineID nonce) =
   count_list (map lease_of machines) (machineID, nonce)"
  by (induction machines) (simp_all add: lease_of_def)

lemma count_list_no_release:
  assumes "filter is_ReleaseLease new = []"
  shows "count_list new (Call_ReleaseLease machineID nonce) = 0"
proof -
  have "Call_ReleaseLease machineID nonce \<notin> set new"
  proof
    assume "Call_ReleaseLease machineID nonce \<in> set new"
    then have "Call_ReleaseLease machineID nonce \<in> set (filter is_ReleaseLease new)"
      by simp
    with assms show False by simp
  qed
  then show ?thesis by (simp add: count_list_0_iff)
qed

lemma count_list_distinct:
  "distinct xs \<Longrightarrow> x \<in> set xs \<Longrightarrow> count_list xs x = 1"
  by (induction xs) auto

text \<open>The whole trace of the rolling update on the example platform.\<close>

lemma example_RollingUpdate:
  "RollingUpdate example_platform example_input example_state =
     ((Inr None, example_input\<lparr>input_ID := ''C''\<rparr>),
      \<lparr>world = 0,
       calls =
         [Call_AcquireLeases,
          Out (''Updating machine A\<newline>''),
          Call_Update (example_input\<lparr>input_ID := ''A''\<rparr>) ''nA'',
          Call_WaitForStartOrStop ''A'' ''start'' 300000000000,
          Call_MachinesChecks [example_machine ''A'' ''nA'' ''started'' ''''],
          Out (''Machine A updated successfully!\<newline>''),
          Out (''Updating machine B\<newline>''),
          Call_Update (example_input\<lparr>input_ID := ''B''\<rparr>) ''nB'',
          Out (''Updating machine C\<newline>''),
          Call_Update (example_input\<lparr>input_ID := ''C''\<rparr>) ''nC'',
          Call_WaitForStartOrStop ''C'' ''start'' 300000000000,
          Call_MachinesChecks [example_machine ''C'' ''nC'' ''started'' ''''],
          Out (''Machine C updated successfully!\<newline>''),
          Call_ReleaseLease ''C'' ''nC'',
          Call_ReleaseLease ''B'' ''nB'',
          Call_ReleaseLease ''A'' ''nA'']\<rparr>)"
  by (simp add: RollingUpdate_def Update_def perform_def emit_def Let_def
        example_platform_def example_machines_def example_machine_def example_config_def
        example_state_def example_input_def time_Minute_def time_Second_def)

text \<open>
  The rolling update on the platform whose machine \<open>A\<close> has no configuration: the
  push on \<open>A\<close> is accepted, the read of its schedule panics, \<open>C\<close> is not reached,
  and both leases are released before the panic leaves the function.
\<close>

lemma example_RollingUpdate_without_config:
  "RollingUpdate example_platform_without_config example_input example_state =
     ((Inl NilDereference, example_input\<lparr>input_ID := ''A''\<rparr>),
      \<lparr>world = 0,
       calls =
         [Call_AcquireLeases,
          Out (''Updating machine A\<newline>''),
          Call_Update (example_input\<lparr>input_ID := ''A''\<rparr>) ''nA'',
          Call_ReleaseLease ''C'' ''nC'',
          Call_ReleaseLease ''A'' ''nA'']\<rparr>)"
  by (simp add: RollingUpdate_def Update_def perform_def emit_def Let_def
        example_platform_without_config_def example_platform_def example_machine_def
        example_state_def example_input_def)

text \<open>
  Claim C1, as the code has it. In every rolling update whose leases were acquired,
  the configuration push is attempted on the machines in the order of the list,
  whatever the updates of the other machines return: an update that returns an
  error never keeps the loop from the next machine, and the pushes end before the
  end of the list only behind a machine that has no configuration. So when every
  machine has a configuration, the pushes in the trace are exactly one per machine.
\<close>

theorem RollingUpdate_attempts_every_machine:
  assumes "fst (on_AcquireLeases P (world s)) = Inr machines"
  shows "(\<exists>n \<le> length machines.
            filter is_Update (calls (snd (RollingUpdate P input s))) =
              filter is_Update (calls s)
                @ map (\<lambda>m. Call_Update (input\<lparr>input_ID := ID m\<rparr>) (LeaseNonce m))
                    (take n machines)
            \<and> (n = length machines \<or> (0 < n \<and> Config (machines ! (n - 1)) = None)))
         \<and> ((\<forall>m \<in> set machines. Config m \<noteq> None) \<longrightarrow>
              filter is_Update (calls (snd (RollingUpdate P input s))) =
                filter is_Update (calls s)
                  @ map (\<lambda>m. Call_Update (input\<lparr>input_ID := ID m\<rparr>) (LeaseNonce m))
                      machines)"
proof -
  from calls_RollingUpdate [OF assms, of input] obtain new n where
    tr: "calls (snd (RollingUpdate P input s)) =
       calls s @ [Call_AcquireLeases] @ new
         @ map (\<lambda>m. Call_ReleaseLease (ID m) (LeaseNonce m)) (rev machines)"
    and n: "n \<le> length machines"
    and upds: "filter is_Update new =
       map (\<lambda>m. Call_Update (input\<lparr>input_ID := ID m\<rparr>) (LeaseNonce m)) (take n machines)"
    and stop: "if fst (fst (RollingUpdate P input s)) = Inr None then n = length machines
         else fst (fst (RollingUpdate P input s)) = Inl NilDereference
              \<and> 0 < n \<and> Config (machines ! (n - 1)) = None"
    by blast
  have pushes: "filter is_Update (calls (snd (RollingUpdate P input s))) =
      filter is_Update (calls s)
        @ map (\<lambda>m. Call_Update (input\<lparr>input_ID := ID m\<rparr>) (LeaseNonce m)) (take n machines)"
    using tr upds by (simp add: filter_is_Update_releases)
  have last: "n = length machines \<or> (0 < n \<and> Config (machines ! (n - 1)) = None)"
    using stop by (auto split: if_splits)
  have all: "n = length machines" if "\<forall>m \<in> set machines. Config m \<noteq> None"
  proof (rule ccontr)
    assume "n \<noteq> length machines"
    with last have "0 < n" and none: "Config (machines ! (n - 1)) = None"
      by auto
    with n have "machines ! (n - 1) \<in> set machines"
      by simp
    with that none show False by blast
  qed
  from n pushes last all show ?thesis
    by auto
qed

text \<open>
  On the example platform every machine has a configuration and the push on \<open>B\<close>
  is rejected; the pushes on \<open>A\<close>, \<open>B\<close> and \<open>C\<close> are all in the trace.
\<close>

theorem RollingUpdate_attempts_every_machine_witness:
  "fst (on_AcquireLeases example_platform (world example_state)) = Inr example_machines
   \<and> Config (example_machine ''A'' ''nA'' ''started'' '''') \<noteq> None
   \<and> Config (example_machine ''B'' ''nB'' ''started'' ''hourly'') \<noteq> None
   \<and> Config (example_machine ''C'' ''nC'' ''started'' '''') \<noteq> None
   \<and> fst (on_Update example_platform (example_input\<lparr>input_ID := ''B''\<rparr>) ''nB'' 0) \<noteq> None
   \<and> filter is_Update
       (calls (snd (RollingUpdate example_platform example_input example_state))) =
       [Call_Update (example_input\<lparr>input_ID := ''A''\<rparr>) ''nA'',
        Call_Update (example_input\<lparr>input_ID := ''B''\<rparr>) ''nB'',
        Call_Update (example_input\<lparr>input_ID := ''C''\<rparr>) ''nC'']"
  using RollingUpdate_attempts_every_machine
          [where P = example_platform and s = example_state and machines = example_machines
             and input = example_input, THEN conjunct2]
  by (simp add: example_platform_def example_state_def example_machines_def
        example_machine_def)

text \<open>
  The claim as stated also wants the failure of a machine in the result of the
  operation. On the example platform the update of \<open>B\<close> returns an error to the
  loop, and the rolling update returns \<open>nil\<close>; no line for the operator reports
  the failure either.
\<close>

theorem RollingUpdate_result_counterexample:
  "fst (fst (Update example_platform (example_machine ''B'' ''nB'' ''started'' ''hourly'')
               example_input example_state)) =
     Inr (Some (Wrapped ''could not stop machine B: '' (ErrorString ''invalid config'')))
   \<and> fst (fst (RollingUpdate example_platform example_input example_state)) = Inr None
   \<and> filter is_Warn (calls (snd (RollingUpdate example_platform example_input example_state)))
       = []"
  by (simp add: example_RollingUpdate)
     (simp add: Update_def perform_def emit_def Let_def example_platform_def
        example_machine_def example_state_def example_input_def)

text \<open>
  Claim C2. In every rolling update whose leases were acquired, the trace ends with
  one \<open>ReleaseLease\<close> per machine that \<open>AcquireLeases\<close> returned, with that machine's
  ID and nonce, and nothing before them releases a lease; so every lease is released
  as often as it was acquired, which is exactly once when the leases are distinct.
  This holds for every platform, whatever the pushes, waits and health checks
  return, and also when an update panics on a machine without a configuration. The
  function has one exit after the acquisition: it returns \<open>nil\<close>, unless that panic
  has happened, and it returns \<open>nil\<close> whenever every machine has a configuration.
\<close>

theorem RollingUpdate_releases_every_lease_once:
  assumes "fst (on_AcquireLeases P (world s)) = Inr machines"
  shows "\<exists>updates.
           calls (snd (RollingUpdate P input s)) =
             calls s @ [Call_AcquireLeases] @ updates
               @ map (\<lambda>m. Call_ReleaseLease (ID m) (LeaseNonce m)) (rev machines)
           \<and> filter is_ReleaseLease updates = []
           \<and> (\<forall>machineID nonce.
                count_list
                  ([Call_AcquireLeases] @ updates
                     @ map (\<lambda>m. Call_ReleaseLease (ID m) (LeaseNonce m)) (rev machines))
                  (Call_ReleaseLease machineID nonce) =
                count_list (map lease_of machines) (machineID, nonce))
           \<and> (distinct (map lease_of machines) \<longrightarrow>
                (\<forall>m \<in> set machines.
                   count_list
                     ([Call_AcquireLeases] @ updates
                        @ map (\<lambda>m. Call_ReleaseLease (ID m) (LeaseNonce m)) (rev machines))
                     (Call_ReleaseLease (ID m) (LeaseNonce m)) = 1))
           \<and> (fst (fst (RollingUpdate P input s)) = Inr None
               \<or> fst (fst (RollingUpdate P input s)) = Inl NilDereference)
           \<and> ((\<forall>m \<in> set machines. Config m \<noteq> None) \<longrightarrow>
                fst (fst (RollingUpdate P input s)) = Inr None)"
proof -
  from calls_RollingUpdate [OF assms, of input] obtain updates n where
    tr: "calls (snd (RollingUpdate P input s)) =
       calls s @ [Call_AcquireLeases] @ updates
         @ map (\<lambda>m. Call_ReleaseLease (ID m) (LeaseNonce m)) (rev machines)"
    and n: "n \<le> length machines"
    and stop: "if fst (fst (RollingUpdate P input s)) = Inr None then n = length machines
         else fst (fst (RollingUpdate P input s)) = Inl NilDereference
              \<and> 0 < n \<and> Config (machines ! (n - 1)) = None"
    and none: "filter is_ReleaseLease updates = []"
    by blast
  have cnt: "count_list
               ([Call_AcquireLeases] @ updates
                  @ map (\<lambda>m. Call_ReleaseLease (ID m) (LeaseNonce m)) (rev machines))
               (Call_ReleaseLease machineID nonce) =
             count_list (map lease_of machines) (machineID, nonce)" for machineID nonce
    using count_list_releases [of machines machineID nonce]
      count_list_no_release [OF none, of machineID nonce]
    by (simp add: rev_map [symmetric])
  have once: "count_list
               ([Call_AcquireLeases] @ updates
                  @ map (\<lambda>m. Call_ReleaseLease (ID m) (LeaseNonce m)) (rev machines))
               (Call_ReleaseLease (ID m) (LeaseNonce m)) = 1"
    if "distinct (map lease_of machines)" and "m \<in> set machines" for m
  proof -
    have "lease_of m \<in> set (map lease_of machines)"
      using that(2) by simp
    then have "count_list (map lease_of machines) (ID m, LeaseNonce m) = 1"
      using that(1) count_list_distinct [of "map lease_of machines" "lease_of m"]
      by (simp add: lease_of_def)
    then show ?thesis by (simp only: cnt)
  qed
  have result: "fst (fst (RollingUpdate P input s)) = Inr None
      \<or> fst (fst (RollingUpdate P input s)) = Inl NilDereference"
    using stop by (auto split: if_splits)
  have nil: "fst (fst (RollingUpdate P input s)) = Inr None"
    if "\<forall>m \<in> set machines. Config m \<noteq> None"
  proof (rule ccontr)
    assume "fst (fst (RollingUpdate P input s)) \<noteq> Inr None"
    with stop have "0 < n" and missing: "Config (machines ! (n - 1)) = None"
      by auto
    with n have "machines ! (n - 1) \<in> set machines"
      by simp
    with that missing show False by blast
  qed
  from tr none cnt once result nil show ?thesis by blast
qed

text \<open>
  On the example platform, where the push on \<open>B\<close> is rejected, the three leases
  are released, last acquired first. On the platform whose machine \<open>A\<close> has no
  configuration, the update of \<open>A\<close> panics, and the two leases are released all the
  same.
\<close>

theorem RollingUpdate_releases_every_lease_once_witness:
  "fst (on_AcquireLeases example_platform (world example_state)) = Inr example_machines
   \<and> fst (on_Update example_platform (example_input\<lparr>input_ID := ''B''\<rparr>) ''nB'' 0) \<noteq> None
   \<and> distinct (map lease_of example_machines)
   \<and> filter is_ReleaseLease
       (calls (snd (RollingUpdate example_platform example_input example_state))) =
       [Call_ReleaseLease ''C'' ''nC'', Call_ReleaseLease ''B'' ''nB'',
        Call_ReleaseLease ''A'' ''nA'']
   \<and> fst (on_AcquireLeases example_platform_without_config (world example_state)) =
       Inr [(example_machine ''A'' ''nA'' ''started'' '''')\<lparr>Config := None\<rparr>,
            example_machine ''C'' ''nC'' ''started'' '''']
   \<and> filter is_ReleaseLease
       (calls (snd (RollingUpdate example_platform_without_config example_input
                      example_state))) =
       [Call_ReleaseLease ''C'' ''nC'', Call_ReleaseLease ''A'' ''nA'']"
  using RollingUpdate_releases_every_lease_once
          [where P = example_platform and s = example_state and machines = example_machines
             and input = example_input]
        RollingUpdate_releases_every_lease_once
          [where P = example_platform_without_config and s = example_state
             and machines = "[(example_machine ''A'' ''nA'' ''started'' '''')\<lparr>Config := None\<rparr>,
                              example_machine ''C'' ''nC'' ''started'' '''']"
             and input = example_input]
  by (auto simp: example_platform_without_config_def example_platform_def example_state_def
        example_machines_def example_machine_def lease_of_def)

section \<open>Ephemeral runner: properties\<close>

lemma fmt_int_137: "fmt_int 137 = ''137''"
  by code_simp

lemma range_Events_find:
  "range_Events events = find (\<lambda>event. Type event = ''exit'') events"
  by (induction events) simp_all

lemma ToEphemeralRunnerMachineConfig_Inr:
  "\<exists>machConfig. ToEphemeralRunnerMachineConfig appConfig = Inr machConfig"
  by (simp add: ToEphemeralRunnerMachineConfig_def Let_def)

text \<open>
  Claim C10. When the lookup of the current release returns no release and no error,
  \<open>makeEphemeralRunnerMachine\<close> returns the error that the app has not yet been
  released; the lookup is the only call it has made, so no launch was issued.
\<close>

theorem makeEphemeralRunnerMachine_without_release:
  assumes "fst (on_GetAppCurrentReleaseMachines P (App_Name app) (world s)) = Inr None"
  shows "fst (makeEphemeralRunnerMachine P app appConfig s) =
           Inl (ErrorString
             ''can't create an ephemeral runner machine since the app has not yet been released'')
         \<and> calls (snd (makeEphemeralRunnerMachine P app appConfig s)) =
             calls s @ [Call_GetAppCurrentReleaseMachines (App_Name app)]
         \<and> filter is_Launch (calls (snd (makeEphemeralRunnerMachine P app appConfig s))) =
             filter is_Launch (calls s)"
  using assms
  by (simp add: makeEphemeralRunnerMachine_def perform_eq split: prod.splits)

theorem makeEphemeralRunnerMachine_without_release_witness:
  "fst (on_GetAppCurrentReleaseMachines example_platform_unreleased (App_Name example_app)
          (world example_state)) = Inr None
   \<and> makeEphemeralRunnerMachine example_platform_unreleased example_app example_appConfig
         example_state =
       (Inl (ErrorString
          ''can't create an ephemeral runner machine since the app has not yet been released''),
        \<lparr>world = 0, calls = [Call_GetAppCurrentReleaseMachines ''app'']\<rparr>)"
  using makeEphemeralRunnerMachine_without_release
          [where P = example_platform_unreleased and app = example_app
             and appConfig = example_appConfig and s = example_state]
  by (simp add: makeEphemeralRunnerMachine_def perform_def example_platform_unreleased_def
        example_platform_def example_app_def example_state_def)

text \<open>
  \<open>checkMachineDestruction\<close> makes one call, the fetch of the machine, and reports
  the machine as destroyed exactly when the fetch succeeds with the state
  \<open>destroyed\<close> or \<open>destroying\<close>.
\<close>

lemma calls_checkMachineDestruction:
  "calls (snd (checkMachineDestruction P machine firstErr s)) =
     calls s @ [Call_Get (ID machine)]"
  by (simp add: checkMachineDestruction_def perform_eq
           split: prod.splits sum.splits option.splits)

lemma destroyed_checkMachineDestruction:
  "fst (fst (checkMachineDestruction P machine firstErr s)) =
     (case fst (on_Get P (ID machine) (world s)) of
        Inl err \<Rightarrow> False
      | Inr fetched \<Rightarrow>
          State fetched = MachineStateDestroyed \<or> State fetched = MachineStateDestroying)"
  by (simp add: checkMachineDestruction_def perform_eq
           split: prod.splits sum.splits option.splits)

lemma error_checkMachineDestruction:
  assumes "fst (on_Get P (ID machine) (world s)) = Inr fetched"
    and "State fetched = MachineStateDestroyed \<or> State fetched = MachineStateDestroying"
  shows "snd (fst (checkMachineDestruction P machine firstErr s)) =
     (case find (\<lambda>event. Type event = ''exit'') (Events fetched) of
        None \<Rightarrow> ErrorString ''machine was destroyed unexpectedly''
      | Some exitEvent \<Rightarrow>
          (case Request exitEvent of
             None \<Rightarrow> ErrorString ''machine was destroyed unexpectedly''
           | Some request \<Rightarrow>
               (case GetExitCode request of
                  Inl err \<Rightarrow> ErrorString ''machine exited unexpectedly''
                | Inr exitCode \<Rightarrow>
                    ErrorString (''machine exited unexpectedly with code ''
                                   @ fmt_int exitCode))))"
  using assms
  by (auto simp: checkMachineDestruction_def perform_eq range_Events_find
           split: prod.splits sum.splits option.splits)

text \<open>
  \<open>makeEphemeralRunnerMachine\<close> after a launch that succeeded and a wait that
  failed: the state \<open>s6\<close> in which the error of the wait is inspected, and what
  follows from there.
\<close>

lemma makeEphemeralRunnerMachine_wait_failed:
  assumes "on_GetAppCurrentReleaseMachines P (App_Name app) (world s) =
             (Inr (Some currentRelease), w1)"
    and "ToEphemeralRunnerMachineConfig appConfig = Inr machConfig"
    and "launchInput =
           \<lparr>input_AppID = App_ID app, input_ID = '''', input_Name = '''', input_Region = '''',
            input_OrgSlug = Organization_ID (App_Organization app),
            input_Config = Some (machConfig\<lparr>Image := ImageRef currentRelease,
                                            Guest := MachinePresets P ''shared-cpu-1x''\<rparr>)\<rparr>"
    and "on_Launch P launchInput w1 = (Inr machine, w2)"
    and "on_Wait P (ID machine) MachineStateStarted (15 * time_Second) w2 = (Some err, w3)"
    and "s6 = \<lparr>world = w3,
                calls = calls s
                  @ [Call_GetAppCurrentReleaseMachines (App_Name app),
                     Call_Launch launchInput,
                     Out (''Created an ephemeral machine '' @ colorize_Bold P (ID machine)
                            @ '' to run the command.\<newline>''),
                     Out (''Waiting for '' @ colorize_Bold P (ID machine) @ '' to start ...''),
                     Call_Wait (ID machine) MachineStateStarted (15 * time_Second),
                     Out ('' '' @ colorize_Red P ''failed'' @ ''!\<newline>'')]\<rparr>"
  shows "makeEphemeralRunnerMachine P app appConfig s =
           (if errors_As_FlapsError err = Some 404
            then (Inl (snd (fst (checkMachineDestruction P machine err s6))),
                  if \<not> fst (fst (checkMachineDestruction P machine err s6))
                  then emit (Warn
                         ''You may need to destroy the machine manually (`fly machine destroy`).'')
                         (snd (checkMachineDestruction P machine err s6))
                  else snd (checkMachineDestruction P machine err s6))
            else (Inl err,
                  emit (Warn
                    ''You may need to destroy the machine manually (`fly machine destroy`).'')
                    s6))"
  using assms
  by (simp add: makeEphemeralRunnerMachine_def perform_eq emit_def Let_def
           split: prod.splits)

text \<open>
  Claim C8, as the code has it. When the launch fails, the runner returns the
  wrapped error of the launch at once: it fetches no machine and warns nobody. When
  the launch succeeds and the wait of 15 seconds for \<open>started\<close> fails, the runner
  fetches the machine's current state only if the error of the wait is a platform
  error with the HTTP status 404; and it warns the operator that the machine may
  have to be destroyed by hand exactly when the machine is not confirmed destroyed,
  that is, when there was no fetch, when the fetch failed, or when the fetched state
  is neither \<open>destroyed\<close> nor \<open>destroying\<close>.
\<close>

theorem makeEphemeralRunnerMachine_confirms_destruction:
  assumes "on_GetAppCurrentReleaseMachines P (App_Name app) (world s) =
             (Inr (Some currentRelease), w1)"
    and "ToEphemeralRunnerMachineConfig appConfig = Inr machConfig"
    and "launchInput =
           \<lparr>input_AppID = App_ID app, input_ID = '''', input_Name = '''', input_Region = '''',
            input_OrgSlug = Organization_ID (App_Organization app),
            input_Config = Some (machConfig\<lparr>Image := ImageRef currentRelease,
                                            Guest := MachinePresets P ''shared-cpu-1x''\<rparr>)\<rparr>"
  shows "(\<forall>err w2. on_Launch P launchInput w1 = (Inl err, w2) \<longrightarrow>
            makeEphemeralRunnerMachine P app appConfig s =
              (Inl (Wrapped ''failed to launch ephemeral runner machine: '' err),
               \<lparr>world = w2,
                calls = calls s @ [Call_GetAppCurrentReleaseMachines (App_Name app),
                                   Call_Launch launchInput]\<rparr>))
       \<and> (\<forall>machine w2 err w3.
            on_Launch P launchInput w1 = (Inr machine, w2) \<longrightarrow>
            on_Wait P (ID machine) MachineStateStarted (15 * time_Second) w2 = (Some err, w3) \<longrightarrow>
              filter is_Get (calls (snd (makeEphemeralRunnerMachine P app appConfig s))) =
                filter is_Get (calls s)
                  @ (if errors_As_FlapsError err = Some 404 then [Call_Get (ID machine)] else [])
              \<and> filter is_Warn (calls (snd (makeEphemeralRunnerMachine P app appConfig s))) =
                  filter is_Warn (calls s)
                    @ (if errors_As_FlapsError err = Some 404
                          \<and> (case fst (on_Get P (ID machine) w3) of
                                Inl fetchErr \<Rightarrow> False
                              | Inr fetched \<Rightarrow>
                                  State fetched = MachineStateDestroyed
                                  \<or> State fetched = MachineStateDestroying)
                       then []
                       else [Warn
                         ''You may need to destroy the machine manually (`fly machine destroy`).''])
              \<and> isl (fst (makeEphemeralRunnerMachine P app appConfig s)))"
proof (intro conjI allI impI)
  fix err w2
  assume "on_Launch P launchInput w1 = (Inl err, w2)"
  then show "makeEphemeralRunnerMachine P app appConfig s =
      (Inl (Wrapped ''failed to launch ephemeral runner machine: '' err),
       \<lparr>world = w2,
        calls = calls s @ [Call_GetAppCurrentReleaseMachines (App_Name app),
                           Call_Launch launchInput]\<rparr>)"
    using assms
    by (simp add: makeEphemeralRunnerMachine_def perform_eq Let_def split: prod.splits)
next
  fix machine w2 err w3
  assume launch: "on_Launch P launchInput w1 = (Inr machine, w2)"
    and wait: "on_Wait P (ID machine) MachineStateStarted (15 * time_Second) w2 = (Some err, w3)"
  define s6 where "s6 = \<lparr>world = w3,
      calls = calls s
        @ [Call_GetAppCurrentReleaseMachines (App_Name app),
           Call_Launch launchInput,
           Out (''Created an ephemeral machine '' @ colorize_Bold P (ID machine)
                  @ '' to run the command.\<newline>''),
           Out (''Waiting for '' @ colorize_Bold P (ID machine) @ '' to start ...''),
           Call_Wait (ID machine) MachineStateStarted (15 * time_Second),
           Out ('' '' @ colorize_Red P ''failed'' @ ''!\<newline>'')]\<rparr>"
  note shape = makeEphemeralRunnerMachine_wait_failed
                 [OF assms(1) assms(2) assms(3) launch wait s6_def]
  have w: "world s6 = w3" by (simp add: s6_def)
  show "filter is_Get (calls (snd (makeEphemeralRunnerMachine P app appConfig s))) =
      filter is_Get (calls s)
        @ (if errors_As_FlapsError err = Some 404 then [Call_Get (ID machine)] else [])"
    by (simp add: shape calls_checkMachineDestruction) (simp add: s6_def)
  show "filter is_Warn (calls (snd (makeEphemeralRunnerMachine P app appConfig s))) =
      filter is_Warn (calls s)
        @ (if errors_As_FlapsError err = Some 404
              \<and> (case fst (on_Get P (ID machine) w3) of
                    Inl fetchErr \<Rightarrow> False
                  | Inr fetched \<Rightarrow>
                      State fetched = MachineStateDestroyed
                      \<or> State fetched = MachineStateDestroying)
           then []
           else [Warn
             ''You may need to destroy the machine manually (`fly machine destroy`).''])"
    using destroyed_checkMachineDestruction [of P machine err s6]
    by (simp add: shape calls_checkMachineDestruction w) (simp add: s6_def)
  show "isl (fst (makeEphemeralRunnerMachine P app appConfig s))"
    by (simp add: shape)
qed

text \<open>
  On the platform whose wait fails with a plain timeout (no HTTP status), the launch
  has succeeded, the machine is not fetched, and the operator is warned.
\<close>

theorem makeEphemeralRunnerMachine_confirms_destruction_witness:
  "on_GetAppCurrentReleaseMachines example_platform_wait_timeout (App_Name example_app)
      (world example_state) = (Inr (Some \<lparr>ImageRef = ''registry/app:1''\<rparr>), 0)
   \<and> on_Wait example_platform_wait_timeout ''E'' MachineStateStarted (15 * time_Second) 0 =
       (Some (ErrorString ''timeout''), 0)
   \<and> filter is_Get
       (calls (snd (makeEphemeralRunnerMachine example_platform_wait_timeout example_app
                      example_appConfig example_state))) = []
   \<and> filter is_Warn
       (calls (snd (makeEphemeralRunnerMachine example_platform_wait_timeout example_app
                      example_appConfig example_state))) =
       [Warn ''You may need to destroy the machine manually (`fly machine destroy`).'']"
  using makeEphemeralRunnerMachine_confirms_destruction
          [where P = example_platform_wait_timeout and app = example_app
             and appConfig = example_appConfig and s = example_state
             and currentRelease = "\<lparr>ImageRef = ''registry/app:1''\<rparr>" and ?w1.0 = 0,
           OF _ _ refl]
  by (simp add: example_platform_wait_timeout_def example_platform_def example_app_def
        example_state_def example_appConfig_def ToEphemeralRunnerMachineConfig_def
        example_machine_def)

text \<open>
  The claim as stated wants a fetch of the machine's state after every failure. On
  the platform whose wait times out there is no fetch; on the platform whose launch
  fails there is neither a fetch nor a warning.
\<close>

theorem makeEphemeralRunnerMachine_fetch_counterexample:
  "fst (makeEphemeralRunnerMachine example_platform_wait_timeout example_app
          example_appConfig example_state) = Inl (ErrorString ''timeout'')
   \<and> filter is_Get
       (calls (snd (makeEphemeralRunnerMachine example_platform_wait_timeout example_app
                      example_appConfig example_state))) = []
   \<and> fst (makeEphemeralRunnerMachine example_platform_launch_fails example_app
            example_appConfig example_state) =
       Inl (Wrapped ''failed to launch ephemeral runner machine: ''
              (ErrorString ''no capacity''))
   \<and> filter is_Get
       (calls (snd (makeEphemeralRunnerMachine example_platform_launch_fails example_app
                      example_appConfig example_state))) = []
   \<and> filter is_Warn
       (calls (snd (makeEphemeralRunnerMachine example_platform_launch_fails example_app
                      example_appConfig example_state))) = []"
  by (simp add: makeEphemeralRunnerMachine_def perform_def emit_def Let_def
        ToEphemeralRunnerMachineConfig_def example_platform_wait_timeout_def
        example_platform_launch_fails_def example_platform_def example_app_def
        example_state_def example_appConfig_def example_machine_def)

text \<open>
  Claim C6, as the code has it. When the wait for \<open>started\<close> fails with the platform's
  status 404 and the machine is then fetched in the state \<open>destroyed\<close> or
  \<open>destroying\<close>, the error that the runner reports is chosen by the first event of
  type \<open>exit\<close> in the order of the fetched event log: when there is no such event,
  or the event has no request, the error is \<open>machine was destroyed unexpectedly\<close>;
  when the request gives no exit code, it is \<open>machine exited unexpectedly\<close>; when
  the request gives the exit code, it is
  \<open>machine exited unexpectedly with code\<close> followed by the code in decimal, as in
  \<open>137\<close>.
\<close>

theorem makeEphemeralRunnerMachine_reports_exit:
  assumes "on_GetAppCurrentReleaseMachines P (App_Name app) (world s) =
             (Inr (Some currentRelease), w1)"
    and "ToEphemeralRunnerMachineConfig appConfig = Inr machConfig"
    and "launchInput =
           \<lparr>input_AppID = App_ID app, input_ID = '''', input_Name = '''', input_Region = '''',
            input_OrgSlug = Organization_ID (App_Organization app),
            input_Config = Some (machConfig\<lparr>Image := ImageRef currentRelease,
                                            Guest := MachinePresets P ''shared-cpu-1x''\<rparr>)\<rparr>"
    and "on_Launch P launchInput w1 = (Inr machine, w2)"
    and "on_Wait P (ID machine) MachineStateStarted (15 * time_Second) w2 = (Some err, w3)"
    and "errors_As_FlapsError err = Some 404"
    and "on_Get P (ID machine) w3 = (Inr fetched, w4)"
    and "State fetched = MachineStateDestroyed \<or> State fetched = MachineStateDestroying"
  shows "fst (makeEphemeralRunnerMachine P app appConfig s) =
           Inl (case find (\<lambda>event. Type event = ''exit'') (Events fetched) of
                  None \<Rightarrow> ErrorString ''machine was destroyed unexpectedly''
                | Some exitEvent \<Rightarrow>
                    (case Request exitEvent of
                       None \<Rightarrow> ErrorString ''machine was destroyed unexpectedly''
                     | Some request \<Rightarrow>
                         (case GetExitCode request of
                            Inl codeErr \<Rightarrow> ErrorString ''machine exited unexpectedly''
                          | Inr exitCode \<Rightarrow>
                              ErrorString (''machine exited unexpectedly with code ''
                                             @ fmt_int exitCode))))
         \<and> fmt_int 137 = ''137''"
proof -
  define s6 where "s6 = \<lparr>world = w3,
      calls = calls s
        @ [Call_GetAppCurrentReleaseMachines (App_Name app),
           Call_Launch launchInput,
           Out (''Created an ephemeral machine '' @ colorize_Bold P (ID machine)
                  @ '' to run the command.\<newline>''),
           Out (''Waiting for '' @ colorize_Bold P (ID machine) @ '' to start ...''),
           Call_Wait (ID machine) MachineStateStarted (15 * time_Second),
           Out ('' '' @ colorize_Red P ''failed'' @ ''!\<newline>'')]\<rparr>"
  note shape = makeEphemeralRunnerMachine_wait_failed
                 [OF assms(1) assms(2) assms(3) assms(4) assms(5) s6_def]
  have fetched: "fst (on_Get P (ID machine) (world s6)) = Inr fetched"
    using assms(7) by (simp add: s6_def)
  show ?thesis
    using error_checkMachineDestruction [OF fetched assms(8), of err] assms(6)
    by (simp add: shape fmt_int_137)
qed

text \<open>
  The fetched log has a \<open>start\<close> event and then an \<open>exit\<close> event with the exit
  code 137.
\<close>

theorem makeEphemeralRunnerMachine_reports_exit_witness:
  "on_Wait
      (example_platform_destroyed
         [\<lparr>Type = ''start'', Request = None\<rparr>,
          \<lparr>Type = ''exit'', Request = Some (MachineRequest (Inr 137))\<rparr>])
      ''E'' MachineStateStarted (15 * time_Second) 0 =
     (Some (FlapsError 404 ''machine not found''), 0)
   \<and> errors_As_FlapsError (FlapsError 404 ''machine not found'') = Some 404
   \<and> State (example_machine ''E'' '''' ''destroyed'' '''') = MachineStateDestroyed
   \<and> fst (makeEphemeralRunnerMachine
            (example_platform_destroyed
               [\<lparr>Type = ''start'', Request = None\<rparr>,
                \<lparr>Type = ''exit'', Request = Some (MachineRequest (Inr 137))\<rparr>])
            example_app example_appConfig example_state) =
       Inl (ErrorString ''machine exited unexpectedly with code 137'')"
  using makeEphemeralRunnerMachine_reports_exit
          [where P = "example_platform_destroyed
                        [\<lparr>Type = ''start'', Request = None\<rparr>,
                         \<lparr>Type = ''exit'', Request = Some (MachineRequest (Inr 137))\<rparr>]"
             and app = example_app and appConfig = example_appConfig and s = example_state
             and currentRelease = "\<lparr>ImageRef = ''registry/app:1''\<rparr>" and ?w1.0 = 0
             and machine = "example_machine ''E'' '''' ''created'' ''''" and ?w2.0 = 0
             and err = "FlapsError 404 ''machine not found''" and ?w3.0 = 0
             and fetched = "(example_machine ''E'' '''' ''destroyed'' '''')
                              \<lparr>Events := [\<lparr>Type = ''start'', Request = None\<rparr>,
                                          \<lparr>Type = ''exit'',
                                           Request = Some (MachineRequest (Inr 137))\<rparr>]\<rparr>"
             and ?w4.0 = 0,
           OF _ _ refl]
  by (simp add: example_platform_destroyed_def example_platform_def example_app_def
        example_state_def example_appConfig_def ToEphemeralRunnerMachineConfig_def
        example_machine_def MachineStateDestroyed_def fmt_int_137)

text \<open>
  The claim as stated gives \<open>destroyed unexpectedly\<close> only when no \<open>exit\<close> event is
  found. Here the log has an \<open>exit\<close> event, which has no request, so no exit code can
  be read from it; the runner reports \<open>destroyed unexpectedly\<close>, where the claim
  says \<open>exited unexpectedly\<close>.
\<close>

theorem makeEphemeralRunnerMachine_exit_without_request_counterexample:
  "range_Events [\<lparr>Type = ''exit'', Request = None\<rparr>] =
     Some \<lparr>Type = ''exit'', Request = None\<rparr>
   \<and> fst (makeEphemeralRunnerMachine
            (example_platform_destroyed [\<lparr>Type = ''exit'', Request = None\<rparr>])
            example_app example_appConfig example_state) =
       Inl (ErrorString ''machine was destroyed unexpectedly'')
   \<and> ErrorString ''machine was destroyed unexpectedly''
       \<noteq> ErrorString ''machine exited unexpectedly''"
  by (simp add: makeEphemeralRunnerMachine_def checkMachineDestruction_def perform_def
        emit_def Let_def ToEphemeralRunnerMachineConfig_def example_platform_destroyed_def
        example_platform_def example_app_def example_state_def example_appConfig_def
        example_machine_def MachineStateDestroyed_def MachineStateDestroying_def
        MachineStateStarted_def)

lemma lease_held_at_mutations_releases:
  "lease_held_at_mutations held
     (map (\<lambda>m. Call_ReleaseLease (ID m) (LeaseNonce m)) machines)"
  by (induction machines arbitrary: held) simp_all

text \<open>The deferred function: its first call is the stop, with the empty nonce.\<close>

lemma calls_deferred_stop:
  "\<exists>rest. calls (deferred_stop P machine s) =
       calls s @ [Call_Stop \<lparr>stop_ID = ID machine, stop_Timeout = 5 * time_Second\<rparr> '''']
         @ rest
     \<and> filter is_Stop rest = []"
  by (simp add: deferred_stop_def perform_eq Let_def split: prod.splits option.splits)

text \<open>The whole trace of the run on the example platform.\<close>

lemma example_runRun:
  "runRun example_platform example_ctx example_state =
     (None,
      \<lparr>world = 0,
       calls =
         [Call_GetAppCompact ''app'',
          Call_flaps_New example_app,
          Call_ValidateForMachinesPlatform example_appConfig,
          Call_GetAppCurrentReleaseMachines ''app'',
          Call_Launch
            \<lparr>input_AppID = ''app-1'', input_ID = '''', input_Name = '''', input_Region = '''',
             input_OrgSlug = ''org-1'',
             input_Config = Some
               \<lparr>Env = [''SSH_LISTEN'' \<mapsto> ''[::1]:22'', ''PRIMARY_REGION'' \<mapsto> ''ams''],
                Init_Cmd = [''dummy'', ''to'', ''keep'', ''machine'', ''running''],
                Init_Entrypoint = [''/.fly/hallpass''],
                Image = ''registry/app:1'',
                Restart_Policy = MachineRestartPolicyNo,
                AutoDestroy = True,
                DNS = Some \<lparr>SkipRegistration = True\<rparr>,
                Guest = Some \<lparr>CPUKind = ''shared'', CPUs = 1, MemoryMB = 256\<rparr>,
                Schedule = ''''\<rparr>\<rparr>,
          Out ''Created an ephemeral machine E to run the command.\<newline>'',
          Out ''Waiting for E to start ...'',
          Call_Wait ''E'' ''started'' 15000000000,
          Out '' done.\<newline>'',
          Call_BringUpAgent example_app,
          Call_Connect ''root'' ''fdaa::E'',
          Call_Console (''./deploy.sh --prod '' @ [squote] @ ''extra arg'' @ [squote]),
          Call_Stop \<lparr>stop_ID = ''E'', stop_Timeout = 5000000000\<rparr> '''',
          Out ''Waiting for ephemeral runner machine E to be destroyed ...'',
          Call_Wait ''E'' ''destroyed'' 5000000000,
          Out '' done.\<newline>'']\<rparr>)"
  by (simp add: runRun_def selectMachine_def deferred_stop_def
        makeEphemeralRunnerMachine_def perform_def emit_def Let_def
        ToEphemeralRunnerMachineConfig_def example_platform_def example_app_def
        example_state_def example_appConfig_def example_ctx_def example_machine_def
        MachineStateDestroyed_def MachineStateStarted_def time_Second_def
        selectCommand_deploy)

text \<open>
  No function of the runner calls \<open>AcquireLeases\<close>: each of them leaves the
  acquisitions in the trace as they were.
\<close>

lemma no_AcquireLeases_checkMachineDestruction:
  "filter is_AcquireLeases (calls (snd (checkMachineDestruction P machine firstErr s))) =
     filter is_AcquireLeases (calls s)"
  by (simp add: calls_checkMachineDestruction)

lemma no_AcquireLeases_makeEphemeralRunnerMachine:
  "filter is_AcquireLeases (calls (snd (makeEphemeralRunnerMachine P app appConfig s))) =
     filter is_AcquireLeases (calls s)"
  by (simp add: makeEphemeralRunnerMachine_def perform_eq Let_def split_beta
        calls_checkMachineDestruction
      split: sum.splits option.splits)

lemma no_AcquireLeases_getMachineByID:
  "filter is_AcquireLeases (calls (snd (getMachineByID P ctx s))) =
     filter is_AcquireLeases (calls s)"
  by (simp add: getMachineByID_def perform_eq Let_def split_beta split: sum.splits)

lemma no_AcquireLeases_promptForMachine:
  "filter is_AcquireLeases (calls (snd (promptForMachine P ctx app appConfig s))) =
     filter is_AcquireLeases (calls s)"
  by (simp add: promptForMachine_def perform_eq Let_def split_beta
        no_AcquireLeases_makeEphemeralRunnerMachine
      split: sum.splits)

lemma no_AcquireLeases_selectMachine:
  "filter is_AcquireLeases (calls (snd (selectMachine P ctx app appConfig s))) =
     filter is_AcquireLeases (calls s)"
  by (simp add: selectMachine_def no_AcquireLeases_makeEphemeralRunnerMachine
        no_AcquireLeases_getMachineByID no_AcquireLeases_promptForMachine)

lemma no_AcquireLeases_deferred_stop:
  "filter is_AcquireLeases (calls (deferred_stop P machine s)) =
     filter is_AcquireLeases (calls s)"
  by (simp add: deferred_stop_def perform_eq Let_def split_beta split: option.splits)

lemma no_AcquireLeases_runRun:
  "filter is_AcquireLeases (calls (snd (runRun P ctx s))) =
     filter is_AcquireLeases (calls s)"
  by (simp add: runRun_def perform_eq Let_def split_beta
        no_AcquireLeases_selectMachine no_AcquireLeases_deferred_stop
      split: sum.splits option.splits)

text \<open>
  Claim C7, as the code has it. Every configuration update that a rolling update
  issues carries the ID and the nonce of a lease that \<open>AcquireLeases\<close> returned and
  that has not been released at that moment: the trace after the acquisition keeps
  the lease invariant, starting from the acquired leases. The stop that the
  ephemeral runner's deferred function issues carries the empty nonce; the runner
  acquires no lease on its machine, on any platform and for any invocation.
\<close>

theorem mutations_carry_lease_nonce:
  assumes "fst (on_AcquireLeases P (world s)) = Inr machines"
  shows "(\<exists>after.
            calls (snd (RollingUpdate P input s)) = calls s @ [Call_AcquireLeases] @ after
            \<and> lease_held_at_mutations (map lease_of machines) after)
         \<and> (\<exists>rest.
              calls (deferred_stop P machine s') =
                calls s'
                  @ [Call_Stop \<lparr>stop_ID = ID machine, stop_Timeout = 5 * time_Second\<rparr> '''']
                  @ rest
              \<and> filter is_Stop rest = [])
         \<and> filter is_AcquireLeases (calls (snd (runRun P ctx s'))) =
             filter is_AcquireLeases (calls s')"
proof (intro conjI)
  from calls_RollingUpdate [OF assms, of input] obtain new where
    tr: "calls (snd (RollingUpdate P input s)) =
       calls s @ [Call_AcquireLeases] @ new
         @ map (\<lambda>m. Call_ReleaseLease (ID m) (LeaseNonce m)) (rev machines)"
    and held: "\<forall>held rest. set (map lease_of machines) \<subseteq> set held \<longrightarrow>
          lease_held_at_mutations held (new @ rest) = lease_held_at_mutations held rest"
    by blast
  have "lease_held_at_mutations (map lease_of machines)
          (new @ map (\<lambda>m. Call_ReleaseLease (ID m) (LeaseNonce m)) (rev machines))"
    using held lease_held_at_mutations_releases [of "map lease_of machines" "rev machines"]
    by simp
  with tr show "\<exists>after.
      calls (snd (RollingUpdate P input s)) = calls s @ [Call_AcquireLeases] @ after
      \<and> lease_held_at_mutations (map lease_of machines) after"
    by blast
next
  show "\<exists>rest.
      calls (deferred_stop P machine s') =
        calls s'
          @ [Call_Stop \<lparr>stop_ID = ID machine, stop_Timeout = 5 * time_Second\<rparr> '''']
          @ rest
      \<and> filter is_Stop rest = []"
    by (rule calls_deferred_stop)
next
  show "filter is_AcquireLeases (calls (snd (runRun P ctx s'))) =
      filter is_AcquireLeases (calls s')"
    by (rule no_AcquireLeases_runRun)
qed

theorem mutations_carry_lease_nonce_witness:
  "fst (on_AcquireLeases example_platform (world example_state)) = Inr example_machines
   \<and> lease_held_at_mutations [(''A'', ''nA''), (''B'', ''nB''), (''C'', ''nC'')]
       (tl (calls (snd (RollingUpdate example_platform example_input example_state))))"
proof -
  have acquired:
    "fst (on_AcquireLeases example_platform (world example_state)) = Inr example_machines"
    by (simp add: example_platform_def)
  from mutations_carry_lease_nonce [OF acquired, where input = example_input, THEN conjunct1]
  obtain after where
    tr: "calls (snd (RollingUpdate example_platform example_input example_state)) =
           calls example_state @ [Call_AcquireLeases] @ after"
    and held: "lease_held_at_mutations (map lease_of example_machines) after"
    by blast
  have "after = tl (calls (snd (RollingUpdate example_platform example_input example_state)))"
    using tr by (simp add: example_state_def)
  with held acquired show ?thesis
    by (simp add: example_machines_def example_machine_def lease_of_def)
qed

text \<open>
  The claim as stated also covers the stop. In the run on the example platform the
  only stop carries the empty nonce, no lease was acquired in the whole run, and the
  lease invariant fails on the trace.
\<close>

theorem runRun_stop_without_lease_counterexample:
  "filter is_Stop (calls (snd (runRun example_platform example_ctx example_state))) =
     [Call_Stop \<lparr>stop_ID = ''E'', stop_Timeout = 5000000000\<rparr> '''']
   \<and> Call_AcquireLeases \<notin> set (calls (snd (runRun example_platform example_ctx example_state)))
   \<and> \<not> lease_held_at_mutations []
         (calls (snd (runRun example_platform example_ctx example_state)))"
  by (simp add: example_runRun)

end
